theory Spec2Isabelle
  imports Complex_Main "HOL-Library.Stream" "HOL-Library.Sublist"
begin

section \<open>Floating-point dtypes\<close>

text \<open>
  A tensor element is the real number its floating-point pattern stands for. A dtype is
  its number of significant bits and its exponent range; \<open>fl\<close> rounds a real number to
  the dtype, to nearest and ties to even, with gradual underflow below the smallest
  normal exponent. Overflow to infinity is outside the model.
\<close>

datatype dtype = Float16 | BFloat16 | Float32 | Float64

fun precision :: "dtype \<Rightarrow> nat" where
  "precision Float16 = 11"
| "precision BFloat16 = 8"
| "precision Float32 = 24"
| "precision Float64 = 53"

fun emin :: "dtype \<Rightarrow> int" where
  "emin Float16 = - 14"
| "emin BFloat16 = - 126"
| "emin Float32 = - 126"
| "emin Float64 = - 1022"

fun emax :: "dtype \<Rightarrow> int" where
  "emax Float16 = 15"
| "emax BFloat16 = 127"
| "emax Float32 = 127"
| "emax Float64 = 1023"

fun exponent_from :: "nat \<Rightarrow> int \<Rightarrow> real \<Rightarrow> int" where
  "exponent_from 0 e x = e"
| "exponent_from (Suc n) e x = (if 2 powi e \<le> \<bar>x\<bar> then e else exponent_from n (e - 1) x)"

definition exponent :: "dtype \<Rightarrow> real \<Rightarrow> int" where
  "exponent dt x = exponent_from (nat (emax dt - emin dt)) (emax dt) x"

definition round_half_even :: "real \<Rightarrow> int" where
  "round_half_even y =
     (let f = \<lfloor>y\<rfloor>
      in if y - of_int f < 1 / 2 then f
         else if 1 / 2 < y - of_int f then f + 1
         else if even f then f else f + 1)"

definition ulp :: "dtype \<Rightarrow> real \<Rightarrow> real" where
  "ulp dt x = 2 powi (exponent dt x - int (precision dt) + 1)"

definition fl :: "dtype \<Rightarrow> real \<Rightarrow> real" where
  "fl dt x = ulp dt x * of_int (round_half_even (x / ulp dt x))"

section \<open>Tensors and the random generator\<close>

text \<open>
  A tensor is its shape, its elements in row-major order and its dtype. An element-wise
  operation returns the exact result rounded to the dtype of the tensor; a Python scalar
  enters an operation with its exact value. The library's global random generator is the
  stream of the uniform draws it is going to produce; \<open>rand_like\<close> consumes as many draws
  as the tensor has elements and hands back the rest of the stream.
\<close>

record tensor =
  shape :: "nat list"
  data :: "real list"
  dtype :: dtype

definition numel :: "tensor \<Rightarrow> nat" where
  "numel t = prod_list (shape t)"

definition full :: "nat list \<Rightarrow> real \<Rightarrow> dtype \<Rightarrow> tensor" where
  "full s v dt = \<lparr>shape = s, data = replicate (prod_list s) (fl dt v), dtype = dt\<rparr>"

definition ones_like :: "tensor \<Rightarrow> tensor" where
  "ones_like t = full (shape t) 1 (dtype t)"

definition zeros_like :: "tensor \<Rightarrow> tensor" where
  "zeros_like t = full (shape t) 0 (dtype t)"

type_synonym rng = "real stream"


definition rand_like :: "tensor \<Rightarrow> rng \<Rightarrow> tensor \<times> rng" where
  "rand_like t g = (t\<lparr>data := stake (numel t) g\<rparr>, sdrop (numel t) g)"

definition t_sub_scalar :: "tensor \<Rightarrow> real \<Rightarrow> tensor" where
  "t_sub_scalar t c = t\<lparr>data := map (\<lambda>x. fl (dtype t) (x - c)) (data t)\<rparr>"

definition t_mul_scalar :: "tensor \<Rightarrow> real \<Rightarrow> tensor" where
  "t_mul_scalar t c = t\<lparr>data := map (\<lambda>x. fl (dtype t) (x * c)) (data t)\<rparr>"

text \<open>Element-wise sum of two tensors of one shape and dtype (the only use in the source).\<close>

definition t_add :: "tensor \<Rightarrow> tensor \<Rightarrow> tensor" where
  "t_add a b = a\<lparr>data := map2 (\<lambda>x y. fl (dtype a) (x + y)) (data a) (data b)\<rparr>"

section \<open>utils.py: label smoothing\<close>

text \<open>
  \<^verbatim>\<open>return label - 0.3 + (torch.rand_like(label) * 0.5)\<close> and
  \<^verbatim>\<open>return label + torch.rand_like(label) * 0.3\<close>
\<close>

definition smooth_positive_labels :: "tensor \<Rightarrow> rng \<Rightarrow> tensor \<times> rng" where
  "smooth_positive_labels label g =
     (let (u, g') = rand_like label g
      in (t_add (t_sub_scalar label 0.3) (t_mul_scalar u 0.5), g'))"

definition smooth_negative_labels :: "tensor \<Rightarrow> rng \<Rightarrow> tensor \<times> rng" where
  "smooth_negative_labels label g =
     (let (u, g') = rand_like label g
      in (t_add label (t_mul_scalar u 0.3), g'))"

section \<open>Errors\<close>

text \<open>Every exception the modelled code can raise is a value; \<open>Inl\<close> carries it.\<close>

datatype error =
    AttributeError string string
  | StopIteration
  | FileNotFoundError string
  | OSError string
  | KeyError string
  | RuntimeError string
  | ValueError string
  | IndexError
  | TypeError

section \<open>Tensor indexing\<close>

text \<open>
  \<open>t[i]\<close> on the first dimension and iteration over the first dimension
  (\<^verbatim>\<open>enumerate(fakes)\<close>); a 0-dimensional tensor supports neither.
\<close>

definition t_index :: "tensor \<Rightarrow> nat \<Rightarrow> error + tensor" where
  "t_index t i =
     (case shape t of
        [] \<Rightarrow> Inl IndexError
      | n # rest \<Rightarrow>
          if i < n
          then Inr \<lparr>shape = rest,
                    data = take (prod_list rest) (drop (i * prod_list rest) (data t)),
                    dtype = dtype t\<rparr>
          else Inl IndexError)"

definition t_unbind :: "tensor \<Rightarrow> error + tensor list" where
  "t_unbind t =
     (case shape t of
        [] \<Rightarrow> Inl TypeError
      | n # rest \<Rightarrow>
          Inr (map (\<lambda>i. \<lparr>shape = rest,
                           data = take (prod_list rest) (drop (i * prod_list rest) (data t)),
                           dtype = dtype t\<rparr>)
                 [0..<n]))"

section \<open>Library objects\<close>

text \<open>
  A network is its parameters by name (what \<open>state_dict()\<close> returns), their gradients and
  its mode flag. An optimizer is kept in the form \<open>state_dict()\<close> packs it: parameters are
  named by position, \<open>opt_state\<close> holds the per-parameter buffers, and every parameter
  group is a dictionary of hyper-parameters beside its parameter positions.
\<close>

record nn_module =
  state_dict :: "string \<rightharpoonup> tensor"
  grads :: "string \<rightharpoonup> tensor"
  training :: bool

datatype pyval = PyFloat real | PyTuple "real list" | PyBool bool

record param_group =
  params :: "nat list"
  options :: "string \<rightharpoonup> pyval"

record optimizer =
  opt_state :: "nat \<rightharpoonup> (string \<rightharpoonup> tensor)"
  param_groups :: "param_group list"

record grad_scaler =
  scale :: real
  growth_tracker :: nat
  found_inf :: bool

text \<open>
  Behaviour that lives outside the two source files (network forward passes, automatic
  differentiation, the scaler's optimizer step, the dataset module's image helpers) is a
  parameter of the model. The gradient and step operations return parameter and gradient
  dictionaries only: they have no access to a network's mode flag.
\<close>

record torch_ops =
  forward_gen :: "nn_module \<Rightarrow> tensor \<Rightarrow> tensor"
  forward_disc :: "nn_module \<Rightarrow> tensor \<Rightarrow> tensor \<Rightarrow> tensor"
  backward_d :: "grad_scaler \<Rightarrow> nn_module \<Rightarrow> tensor \<Rightarrow> tensor \<Rightarrow> tensor \<Rightarrow> tensor \<Rightarrow> tensor
                  \<Rightarrow> (string \<rightharpoonup> tensor)"
  backward_g :: "grad_scaler \<Rightarrow> nn_module \<Rightarrow> nn_module \<Rightarrow> tensor \<Rightarrow> tensor \<Rightarrow> real
                  \<Rightarrow> (string \<rightharpoonup> tensor) \<times> (string \<rightharpoonup> tensor)"
  scaler_step :: "grad_scaler \<Rightarrow> optimizer \<Rightarrow> nn_module
                  \<Rightarrow> grad_scaler \<times> optimizer \<times> (string \<rightharpoonup> tensor) \<times> (string \<rightharpoonup> tensor)"
  scaler_update :: "grad_scaler \<Rightarrow> grad_scaler"
  sigmoid_mean :: "tensor \<Rightarrow> real"
  denormalize :: "tensor \<Rightarrow> tensor"
  get_img_mask :: "tensor \<Rightarrow> tensor"
  permute :: "nat list \<Rightarrow> tensor \<Rightarrow> tensor"
  make_grid :: "tensor list \<Rightarrow> tensor"

section \<open>config\<close>

text \<open>The configuration module is not among the source files; its values are parameters.\<close>

record config =
  NUM_EPOCHS :: int
  SAVE_MODEL :: bool
  LOG_WANDB :: bool
  SMOOTH_POSITIVE_LABELS :: bool
  SMOOTH_NEGATIVE_LABELS :: bool
  L1_LAMBDA :: real
  BATCH_SIZE :: nat
  CHECKPOINT_GEN :: string
  CHECKPOINT_DISC :: string

section \<open>utils.py: save\_some\_examples\<close>

record disk =
  dirs :: "string set"
  image_files :: "string \<rightharpoonup> tensor"

definition path_exists :: "disk \<Rightarrow> string \<Rightarrow> bool" where
  "path_exists d p = (p \<in> dirs d \<or> p \<in> dom (image_files d))"

definition save_image :: "tensor \<Rightarrow> string \<Rightarrow> disk \<Rightarrow> disk" where
  "save_image img p d = d\<lparr>image_files := (image_files d)(p \<mapsto> img)\<rparr>"

text \<open>\<open>str(epoch)\<close> inside the f-strings.\<close>

fun digits :: "nat \<Rightarrow> string" where
  "digits n = (if n < 10 then [''0123456789'' ! n]
               else digits (n div 10) @ [''0123456789'' ! (n mod 10)])"

definition str_int :: "int \<Rightarrow> string" where
  "str_int i = (if i < 0 then ''-'' @ digits (nat (- i)) else digits (nat i))"

text \<open>
  \<^verbatim>\<open>
  if not os.path.exists(folder): os.makedirs(folder)
  image_real, mask = next(iter(val_loader))
  gen.eval()
  with torch.no_grad():
      y_fake = gen(mask)
      save_image(denormalize(y_fake), folder + f"/y_gen_{epoch}.png")
      if epoch == 0:
          save_image(denormalize(image_real), folder + f"/label_{epoch}.png")
  gen.train()
  \<close>
\<close>

definition save_some_examples ::
  "torch_ops \<Rightarrow> nn_module \<Rightarrow> (tensor \<times> tensor) list \<Rightarrow> int \<Rightarrow> string \<Rightarrow> disk
   \<Rightarrow> error + (nn_module \<times> disk)" where
  "save_some_examples ops gen val_loader epoch folder d =
     (let d = (if \<not> path_exists d folder then d\<lparr>dirs := insert folder (dirs d)\<rparr> else d)
      in case val_loader of
           [] \<Rightarrow> Inl StopIteration
         | (image_real, msk) # _ \<Rightarrow>
             let gen = gen\<lparr>training := False\<rparr>;
                 y_fake = forward_gen ops gen msk;
                 d = save_image (denormalize ops y_fake)
                       (folder @ ''/y_gen_'' @ str_int epoch @ ''.png'') d;
                 d = (if epoch = 0
                      then save_image (denormalize ops image_real)
                             (folder @ ''/label_'' @ str_int epoch @ ''.png'') d
                      else d);
                 gen = gen\<lparr>training := True\<rparr>
             in Inr (gen, d))"

section \<open>utils.py: checkpoints\<close>

datatype ckval = ModelState "string \<rightharpoonup> tensor" | OptimizerState optimizer

type_synonym checkpoint = "string \<rightharpoonup> ckval"

record filesystem =
  writable :: "string \<Rightarrow> bool"
  files :: "string \<rightharpoonup> checkpoint"

definition torch_save :: "checkpoint \<Rightarrow> string \<Rightarrow> filesystem \<Rightarrow> error + filesystem" where
  "torch_save obj filename fs =
     (if writable fs filename then Inr (fs\<lparr>files := (files fs)(filename \<mapsto> obj)\<rparr>)
      else Inl (OSError filename))"

definition torch_load :: "string \<Rightarrow> filesystem \<Rightarrow> error + checkpoint" where
  "torch_load filename fs =
     (case files fs filename of None \<Rightarrow> Inl (FileNotFoundError filename) | Some c \<Rightarrow> Inr c)"

text \<open>
  \<open>model.load_state_dict\<close> (strict): the keys must be the model's own and every tensor
  must have the shape of the parameter it replaces.
\<close>

definition load_state_dict :: "nn_module \<Rightarrow> ckval \<Rightarrow> error + nn_module" where
  "load_state_dict m v =
     (case v of
        OptimizerState _ \<Rightarrow> Inl (RuntimeError ''missing or unexpected keys'')
      | ModelState sd \<Rightarrow>
          if dom sd \<noteq> dom (state_dict m) then Inl (RuntimeError ''missing or unexpected keys'')
          else if \<exists>k \<in> dom sd. map_option shape (sd k) \<noteq> map_option shape (state_dict m k)
          then Inl (RuntimeError ''size mismatch'')
          else Inr (m\<lparr>state_dict := sd\<rparr>))"

text \<open>
  \<open>optimizer.load_state_dict\<close>: the saved groups must agree in number and in size with
  the optimizer's own; each loaded group takes the saved hyper-parameters and keeps the
  optimizer's own parameters.
\<close>

definition optimizer_load_state_dict :: "optimizer \<Rightarrow> ckval \<Rightarrow> error + optimizer" where
  "optimizer_load_state_dict opt v =
     (case v of
        ModelState _ \<Rightarrow> Inl (KeyError ''param_groups'')
      | OptimizerState sd \<Rightarrow>
          let groups = param_groups opt; saved_groups = param_groups sd
          in if length groups \<noteq> length saved_groups
             then Inl (ValueError ''different number of parameter groups'')
             else if map (\<lambda>g. length (params g)) groups \<noteq> map (\<lambda>g. length (params g)) saved_groups
             then Inl (ValueError ''parameter group size mismatch'')
             else Inr \<lparr>opt_state = opt_state sd,
                       param_groups = map2 (\<lambda>g ng. ng\<lparr>params := params g\<rparr>) groups saved_groups\<rparr>)"

text \<open>
  \<^verbatim>\<open>
  checkpoint = {"state_dict": model.state_dict(), "optimizer": optimizer.state_dict()}
  torch.save(checkpoint, filename)
  \<close>
\<close>

definition save_checkpoint :: "nn_module \<Rightarrow> optimizer \<Rightarrow> string \<Rightarrow> filesystem \<Rightarrow> error + filesystem" where
  "save_checkpoint model optimizer filename fs =
     (let checkpoint = [''state_dict'' \<mapsto> ModelState (state_dict model),
                        ''optimizer'' \<mapsto> OptimizerState optimizer]
      in torch_save checkpoint filename fs)"

text \<open>
  \<^verbatim>\<open>
  checkpoint = torch.load(checkpoint_file, map_location=config.DEVICE)
  model.load_state_dict(checkpoint["state_dict"])
  optimizer.load_state_dict(checkpoint["optimizer"])
  for param_group in optimizer.param_groups:
      param_group["lr"] = lr
  \<close>
\<close>

definition load_checkpoint ::
  "string \<Rightarrow> nn_module \<Rightarrow> optimizer \<Rightarrow> real \<Rightarrow> filesystem \<Rightarrow> error + (nn_module \<times> optimizer)" where
  "load_checkpoint checkpoint_file model optimizer lr fs =
     (case torch_load checkpoint_file fs of
        Inl e \<Rightarrow> Inl e
      | Inr checkpoint \<Rightarrow>
     (case checkpoint ''state_dict'' of
        None \<Rightarrow> Inl (KeyError ''state_dict'')
      | Some sd \<Rightarrow>
     (case load_state_dict model sd of
        Inl e \<Rightarrow> Inl e
      | Inr model \<Rightarrow>
     (case checkpoint ''optimizer'' of
        None \<Rightarrow> Inl (KeyError ''optimizer'')
      | Some osd \<Rightarrow>
     (case optimizer_load_state_dict optimizer osd of
        Inl e \<Rightarrow> Inl e
      | Inr optimizer \<Rightarrow>
          Inr (model,
               optimizer\<lparr>param_groups :=
                 map (\<lambda>param_group. param_group\<lparr>options := (options param_group)(''lr'' \<mapsto> PyFloat lr)\<rparr>)
                   (param_groups optimizer)\<rparr>))))))"

section \<open>utils.py: init\_weights\<close>

text \<open>
  The type of a submodule: the two convolution classes, a class derived from another
  one, or any other library class. \<open>type(m) == nn.Conv2d\<close> compares the class itself.
  The normal sampler of the library is a parameter: from a mean, a standard deviation,
  a number of elements and the generator it returns the draws and the generator's new
  state.
\<close>

datatype pytype = Conv2d | ConvTranspose2d | Subclass pytype string | OtherModule string

record submodule =
  mtype :: pytype
  weight :: "tensor option"
  bias :: "tensor option"

definition nn_init_normal ::
  "(real \<Rightarrow> real \<Rightarrow> nat \<Rightarrow> 'g \<Rightarrow> real list \<times> 'g) \<Rightarrow> tensor \<Rightarrow> real \<Rightarrow> real \<Rightarrow> 'g \<Rightarrow> tensor \<times> 'g" where
  "nn_init_normal sampler t mean std g =
     (let (xs, g') = sampler mean std (numel t) g in (t\<lparr>data := xs\<rparr>, g'))"

text \<open>
  \<^verbatim>\<open>
  if type(m) == nn.Conv2d or type(m) == nn.ConvTranspose2d:
      nn.init.normal_(m.weight, mean=0.0, std=0.02)
  \<close>
\<close>

definition init_weights ::
  "(real \<Rightarrow> real \<Rightarrow> nat \<Rightarrow> 'g \<Rightarrow> real list \<times> 'g) \<Rightarrow> submodule \<Rightarrow> 'g \<Rightarrow> error + (submodule \<times> 'g)" where
  "init_weights sampler m g =
     (if mtype m = Conv2d \<or> mtype m = ConvTranspose2d then
        (case weight m of
           None \<Rightarrow> Inl (AttributeError ''module'' ''weight'')
         | Some w \<Rightarrow>
             let (w', g') = nn_init_normal sampler w 0.0 0.02 g
             in Inr (m\<lparr>weight := Some w'\<rparr>, g'))
      else Inr (m, g))"

section \<open>utils.py: the names the module binds\<close>

text \<open>
  The names bound at the top level of utils.py: its imports and its functions, in the
  order of the file. An attribute of the module that is not among them does not exist.
\<close>

definition utils_module :: "string list" where
  "utils_module =
     [''torch'', ''nn'', ''config'', ''save_image'', ''os'', ''denormalize'', ''random'', ''np'',
      ''save_some_examples'', ''save_checkpoint'', ''load_checkpoint'', ''set_seed'',
      ''init_weights'', ''smooth_positive_labels'', ''smooth_negative_labels'']"

definition module_getattr :: "string \<Rightarrow> string list \<Rightarrow> string \<Rightarrow> error + string" where
  "module_getattr module_name names a =
     (if a \<in> set names then Inr a else Inl (AttributeError module_name a))"

section \<open>train\_utp.py: load\_dataset\_UTP\<close>

datatype transform = CenterCrop nat | RandomHorizontalFlip | RandomVerticalFlip | RandomRotate90

text \<open>
  A manifest row carries its grade; a missing grade (NaN in the data frame) is \<open>None\<close>.
  \<open>df.grade >= 0\<close> is the boolean column of the comparison, false on a missing grade,
  and \<open>df[mask]\<close> keeps the rows whose entry in the mask is true.
\<close>

record manifest_row =
  image_id :: string
  grade :: "int option"

type_synonym dataframe = "manifest_row list"

definition read_csv :: "(string \<rightharpoonup> dataframe) \<Rightarrow> string \<Rightarrow> error + dataframe" where
  "read_csv csv_files p =
     (case csv_files p of None \<Rightarrow> Inl (FileNotFoundError p) | Some df \<Rightarrow> Inr df)"

definition os_path_join :: "string \<Rightarrow> string \<Rightarrow> string" where
  "os_path_join a b = a @ ''/'' @ b"

definition grade_ge :: "dataframe \<Rightarrow> int \<Rightarrow> bool list" where
  "grade_ge df c = map (\<lambda>r. case grade r of None \<Rightarrow> False | Some g \<Rightarrow> c \<le> g) df"

definition df_select :: "dataframe \<Rightarrow> bool list \<Rightarrow> dataframe" where
  "df_select df m = map fst (filter snd (zip df m))"

text \<open>
  \<^verbatim>\<open>
  df = pd.read_csv(os.path.join(path, 'train.csv'))
  df = df[df.grade >= 0].copy()
  \<close>
  and the same two lines for \<open>test.csv\<close>.
\<close>

definition load_manifest :: "(string \<rightharpoonup> dataframe) \<Rightarrow> string \<Rightarrow> string \<Rightarrow> error + dataframe" where
  "load_manifest csv_files path name =
     (case read_csv csv_files (os_path_join path name) of
        Inl e \<Rightarrow> Inl e
      | Inr df \<Rightarrow> Inr (df_select df (grade_ge df 0)))"

record UTP_Masks =
  ds_df :: dataframe
  ds_T :: "transform list"
  ds_path :: string
  ds_target :: string
  ds_path_masks :: string
  ds_train :: bool

record DataLoader =
  dl_dataset :: UTP_Masks
  dl_shuffle :: bool
  dl_batch_size :: nat
  dl_pin_memory :: bool

text \<open>
  The training transform is built first; its fourth element is \<open>utils.RandomRotate90()\<close>,
  an attribute looked up in the utils module when the list is built.
\<close>

definition load_dataset_UTP ::
  "(string \<rightharpoonup> dataframe) \<Rightarrow> config \<Rightarrow> error + (DataLoader \<times> DataLoader)" where
  "load_dataset_UTP csv_files cfg =
     (let path = ''../data/unitopath-public/800'';
          path_masks = ''../data/unitopath-public/generated'';
          crop = 256
      in case module_getattr ''utils'' utils_module ''RandomRotate90'' of
           Inl e \<Rightarrow> Inl e
         | Inr _ \<Rightarrow>
      let transform_train =
            [CenterCrop crop, RandomHorizontalFlip, RandomVerticalFlip, RandomRotate90]
      in case load_manifest csv_files path ''train.csv'' of
           Inl e \<Rightarrow> Inl e
         | Inr df \<Rightarrow>
      let train_dataset = \<lparr>ds_df = df, ds_T = transform_train, ds_path = path,
                             ds_target = ''grade'', ds_path_masks = path_masks, ds_train = True\<rparr>;
          train_loader = \<lparr>dl_dataset = train_dataset, dl_shuffle = True,
                            dl_batch_size = BATCH_SIZE cfg, dl_pin_memory = False\<rparr>;
          transform_test = [CenterCrop crop]
      in case load_manifest csv_files path ''test.csv'' of
           Inl e \<Rightarrow> Inl e
         | Inr df \<Rightarrow>
      let test_dataset = \<lparr>ds_df = df, ds_T = transform_test, ds_path = path,
                            ds_target = ''grade'', ds_path_masks = path_masks, ds_train = False\<rparr>;
          test_loader = \<lparr>dl_dataset = test_dataset, dl_shuffle = False,
                           dl_batch_size = BATCH_SIZE cfg, dl_pin_memory = True\<rparr>
      in Inr (train_loader, test_loader))"

section \<open>train\_utp.py: main\<close>

text \<open>
  First the loop of \<open>main\<close> and the statements after it, as the sequence of calls they
  make when every call returns. A call made inside the loop is tagged with the epoch
  index, a call made after the loop with \<open>None\<close>.
  \<^verbatim>\<open>
  for epoch in range(config.NUM_EPOCHS):
      g_adv_loss, g_l1_loss, d_loss = train_fn(...)
      if config.SAVE_MODEL and epoch % 5 == 0:
          utils.save_checkpoint(gen, opt_gen, filename=config.CHECKPOINT_GEN)
          utils.save_checkpoint(disc, opt_disc, filename=config.CHECKPOINT_DISC)
          if config.LOG_WANDB:
              wandb.save(config.CHECKPOINT_GEN)
              wandb.save(config.CHECKPOINT_DISC)
      if config.LOG_WANDB:
          gen.eval() ... wandb.log(...) ... gen.train()
  utils.save_checkpoint(gen, opt_gen, filename=config.CHECKPOINT_GEN)
  utils.save_checkpoint(disc, opt_disc, filename=config.CHECKPOINT_DISC)
  if config.LOG_WANDB:
      wandb_log_generated_images(gen, test_loader)
      wandb.finish()
  \<close>
\<close>

datatype net = Gen | Disc

datatype action =
    TrainFn
  | SaveCheckpoint net string
  | WandbSave string
  | GenEval
  | GenForwardTestBatch
  | WandbLogEpoch
  | GenTrain
  | WandbLogGeneratedImages
  | WandbFinish

definition epoch_body :: "config \<Rightarrow> nat \<Rightarrow> action list" where
  "epoch_body cfg epoch =
     [TrainFn] @
     (if SAVE_MODEL cfg \<and> epoch mod 5 = 0
      then [SaveCheckpoint Gen (CHECKPOINT_GEN cfg), SaveCheckpoint Disc (CHECKPOINT_DISC cfg)] @
           (if LOG_WANDB cfg
            then [WandbSave (CHECKPOINT_GEN cfg), WandbSave (CHECKPOINT_DISC cfg)]
            else [])
      else []) @
     (if LOG_WANDB cfg then [GenEval, GenForwardTestBatch, WandbLogEpoch, GenTrain] else [])"

fun epochs_loop :: "config \<Rightarrow> nat list \<Rightarrow> (nat option \<times> action) list" where
  "epochs_loop cfg [] = []"
| "epochs_loop cfg (epoch # rest) =
     map (Pair (Some epoch)) (epoch_body cfg epoch) @ epochs_loop cfg rest"

definition after_loop :: "config \<Rightarrow> action list" where
  "after_loop cfg =
     [SaveCheckpoint Gen (CHECKPOINT_GEN cfg), SaveCheckpoint Disc (CHECKPOINT_DISC cfg)] @
     (if LOG_WANDB cfg then [WandbLogGeneratedImages, WandbFinish] else [])"

definition main_training :: "config \<Rightarrow> (nat option \<times> action) list" where
  "main_training cfg =
     epochs_loop cfg [0..<nat (NUM_EPOCHS cfg)] @ map (Pair None) (after_loop cfg)"

text \<open>
  \<open>main\<close> itself: what it has called from the loop on, and the exception it ends with, if
  any. Lines 23 to 37 build the networks, optimizers and losses and initialise the
  weights; line 40 loads the two data loaders, and an exception raised there ends
  \<open>main\<close>. Lines 43 to 52 build the two gradient scalers and, when tracking is on, log
  one test batch; they are not among the actions.
  \<^verbatim>\<open>
  train_loader, test_loader = load_dataset_UTP()
  ...
  for epoch in range(config.NUM_EPOCHS): ...
  \<close>
\<close>

definition main :: "(string \<rightharpoonup> dataframe) \<Rightarrow> config \<Rightarrow> (nat option \<times> action) list \<times> error option" where
  "main csv_files cfg =
     (case load_dataset_UTP csv_files cfg of
        Inl e \<Rightarrow> ([], Some e)
      | Inr (train_loader, test_loader) \<Rightarrow> (main_training cfg, None))"

text \<open>Where in a run the checkpoint of one network was saved.\<close>

fun saved_at :: "net \<Rightarrow> nat option \<times> action \<Rightarrow> nat option list" where
  "saved_at who (p, SaveCheckpoint n f) = (if n = who then [p] else [])"
| "saved_at who (p, _) = []"

definition save_points :: "net \<Rightarrow> (nat option \<times> action) list \<Rightarrow> nat option list" where
  "save_points who tr = concat (map (saved_at who) tr)"

section \<open>train\_utp.py: wandb\_log\_generated\_images\<close>

text \<open>
  \<^verbatim>\<open>
  for idx_sample, fake_img in enumerate(fakes):
      real = denormalize(images_real[idx_sample]).cpu()
      mask = CancerInstanceDataset.get_img_mask(masks[idx_sample].cpu()).permute(2, 0, 1).cpu()
      fake = denormalize(fake_img).cpu()
      images_to_log.append(torchvision.utils.make_grid([mask, real, fake]))
  \<close>
\<close>

fun sample_grids ::
  "torch_ops \<Rightarrow> tensor \<Rightarrow> tensor \<Rightarrow> nat \<Rightarrow> tensor list \<Rightarrow> tensor list \<Rightarrow> error + tensor list" where
  "sample_grids ops images_real masks idx_sample [] images_to_log = Inr images_to_log"
| "sample_grids ops images_real masks idx_sample (fake_img # rest) images_to_log =
     (case t_index images_real idx_sample of
        Inl e \<Rightarrow> Inl e
      | Inr real_i \<Rightarrow>
     (case t_index masks idx_sample of
        Inl e \<Rightarrow> Inl e
      | Inr mask_i \<Rightarrow>
          let real = denormalize ops real_i;
              msk = permute ops [2, 0, 1] (get_img_mask ops mask_i);
              fake = denormalize ops fake_img
          in sample_grids ops images_real masks (Suc idx_sample) rest
               (images_to_log @ [make_grid ops [msk, real, fake]])))"

text \<open>
  \<^verbatim>\<open>
  for idx_batch, (images_real, masks) in enumerate(loader):
      with torch.no_grad():
          fakes = gen(masks)
          for idx_sample, fake_img in enumerate(fakes): ...
      if idx_batch + 1 == batch_to_log:
          break
  \<close>
\<close>

fun log_batches ::
  "torch_ops \<Rightarrow> nn_module \<Rightarrow> int \<Rightarrow> nat \<Rightarrow> (tensor \<times> tensor) list \<Rightarrow> tensor list
   \<Rightarrow> error + tensor list" where
  "log_batches ops gen batch_to_log idx_batch [] images_to_log = Inr images_to_log"
| "log_batches ops gen batch_to_log idx_batch ((images_real, masks) # rest) images_to_log =
     (case t_unbind (forward_gen ops gen masks) of
        Inl e \<Rightarrow> Inl e
      | Inr fakes \<Rightarrow>
     (case sample_grids ops images_real masks 0 fakes images_to_log of
        Inl e \<Rightarrow> Inl e
      | Inr images_to_log \<Rightarrow>
          if int idx_batch + 1 = batch_to_log then Inr images_to_log
          else log_batches ops gen batch_to_log (Suc idx_batch) rest images_to_log))"

text \<open>
  \<^verbatim>\<open>
  images_to_log = []
  gen.eval()
  for ...
  wandb.log({"Generated_images (mask-real-fake)": [wandb.Image(img) for img in images_to_log]})
  gen.train()
  \<close>
  The tracking service is the list of what has been logged to it.
\<close>

type_synonym wandb = "(string \<times> tensor list) list"

definition wandb_log_generated_images ::
  "torch_ops \<Rightarrow> nn_module \<Rightarrow> (tensor \<times> tensor) list \<Rightarrow> int \<Rightarrow> wandb
   \<Rightarrow> error + (nn_module \<times> wandb)" where
  "wandb_log_generated_images ops gen loader batch_to_log wb =
     (let gen = gen\<lparr>training := False\<rparr>
      in case log_batches ops gen batch_to_log 0 loader [] of
           Inl e \<Rightarrow> Inl e
         | Inr images_to_log \<Rightarrow>
             let wb = wb @ [(''Generated_images (mask-real-fake)'', images_to_log)];
                 gen = gen\<lparr>training := True\<rparr>
             in Inr (gen, wb))"

section \<open>train\_utp.py: train\_fn\<close>

text \<open>
  The objects \<open>train_fn\<close> receives and mutates, with the global random generator and
  the log of the calls made on them, in order. A forward call is logged with the mode
  flag the network had when it was called.
\<close>

datatype call =
    SetTrain net
  | Forward net bool
  | ZeroGrad net
  | Backward net
  | ScalerStep net
  | ScalerUpdate net
  | SetPostfix real real

record train_state =
  disc :: nn_module
  gen :: nn_module
  opt_disc :: optimizer
  opt_gen :: optimizer
  g_scaler :: grad_scaler
  d_scaler :: grad_scaler
  torch_rng :: rng
  calls :: "call list"

record histories =
  disc_losses :: "real list"
  gen_l1_losses :: "real list"
  gen_adv_losses :: "real list"

definition log_call :: "call \<Rightarrow> train_state \<Rightarrow> train_state" where
  "log_call c st = st\<lparr>calls := calls st @ [c]\<rparr>"

text \<open>\<open>gen(mask)\<close> and \<open>disc(mask, image)\<close>: the value, and the call in the log.\<close>

definition call_gen :: "torch_ops \<Rightarrow> tensor \<Rightarrow> train_state \<Rightarrow> tensor \<times> train_state" where
  "call_gen ops msk st =
     (forward_gen ops (gen st) msk, log_call (Forward Gen (training (gen st))) st)"

definition call_disc :: "torch_ops \<Rightarrow> tensor \<Rightarrow> tensor \<Rightarrow> train_state \<Rightarrow> tensor \<times> train_state" where
  "call_disc ops msk img st =
     (forward_disc ops (disc st) msk img, log_call (Forward Disc (training (disc st))) st)"

text \<open>
  \<open>if flag: target = smooth(target)\<close>, where \<open>smooth\<close> draws from the global generator.
\<close>

definition smooth_if ::
  "bool \<Rightarrow> (tensor \<Rightarrow> rng \<Rightarrow> tensor \<times> rng) \<Rightarrow> tensor \<Rightarrow> train_state \<Rightarrow> tensor \<times> train_state" where
  "smooth_if flag smooth target st =
     (if flag
      then (fst (smooth target (torch_rng st)), st\<lparr>torch_rng := snd (smooth target (torch_rng st))\<rparr>)
      else (target, st))"

text \<open>
  \<open>opt_disc.zero_grad()\<close>, \<open>d_scaler.scale(d_loss).backward()\<close>, \<open>d_scaler.step(opt_disc)\<close>
  and \<open>d_scaler.update()\<close>. The loss is named by what it was computed from.
\<close>

definition zero_grad_disc :: "train_state \<Rightarrow> train_state" where
  "zero_grad_disc st = log_call (ZeroGrad Disc) (st\<lparr>disc := (disc st)\<lparr>grads := Map.empty\<rparr>\<rparr>)"

definition backward_d_loss ::
  "torch_ops \<Rightarrow> tensor \<Rightarrow> tensor \<Rightarrow> tensor \<Rightarrow> tensor \<Rightarrow> tensor \<Rightarrow> train_state \<Rightarrow> train_state" where
  "backward_d_loss ops msk image_real image_fake target_real target_fake st =
     log_call (Backward Disc)
       (st\<lparr>disc := (disc st)\<lparr>grads :=
            backward_d ops (d_scaler st) (disc st) msk image_real image_fake
              target_real target_fake\<rparr>\<rparr>)"

definition d_scaler_step :: "torch_ops \<Rightarrow> train_state \<Rightarrow> train_state" where
  "d_scaler_step ops st =
     (let (sc, opt, ps, gs) = scaler_step ops (d_scaler st) (opt_disc st) (disc st)
      in log_call (ScalerStep Disc)
           (st\<lparr>d_scaler := sc, opt_disc := opt,
               disc := (disc st)\<lparr>state_dict := ps, grads := gs\<rparr>\<rparr>))"

definition d_scaler_update :: "torch_ops \<Rightarrow> train_state \<Rightarrow> train_state" where
  "d_scaler_update ops st =
     log_call (ScalerUpdate Disc) (st\<lparr>d_scaler := scaler_update ops (d_scaler st)\<rparr>)"

text \<open>
  \<open>opt_gen.zero_grad()\<close>, \<open>g_scaler.scale(g_loss).backward()\<close> (which also leaves
  gradients on the discriminator's parameters), \<open>g_scaler.step(opt_gen)\<close> and
  \<open>g_scaler.update()\<close>.
\<close>

definition zero_grad_gen :: "train_state \<Rightarrow> train_state" where
  "zero_grad_gen st = log_call (ZeroGrad Gen) (st\<lparr>gen := (gen st)\<lparr>grads := Map.empty\<rparr>\<rparr>)"

definition backward_g_loss ::
  "torch_ops \<Rightarrow> config \<Rightarrow> tensor \<Rightarrow> tensor \<Rightarrow> train_state \<Rightarrow> train_state" where
  "backward_g_loss ops cfg msk image_real st =
     (let (gg, gd) = backward_g ops (g_scaler st) (gen st) (disc st) msk image_real (L1_LAMBDA cfg)
      in log_call (Backward Gen)
           (st\<lparr>gen := (gen st)\<lparr>grads := gg\<rparr>, disc := (disc st)\<lparr>grads := gd\<rparr>\<rparr>))"

definition g_scaler_step :: "torch_ops \<Rightarrow> train_state \<Rightarrow> train_state" where
  "g_scaler_step ops st =
     (let (sc, opt, ps, gs) = scaler_step ops (g_scaler st) (opt_gen st) (gen st)
      in log_call (ScalerStep Gen)
           (st\<lparr>g_scaler := sc, opt_gen := opt,
               gen := (gen st)\<lparr>state_dict := ps, grads := gs\<rparr>\<rparr>))"

definition g_scaler_update :: "torch_ops \<Rightarrow> train_state \<Rightarrow> train_state" where
  "g_scaler_update ops st =
     log_call (ScalerUpdate Gen) (st\<lparr>g_scaler := scaler_update ops (g_scaler st)\<rparr>)"

text \<open>
  The first half of the loop body, for the batch \<open>(image_real, mask)\<close>; it hands
  \<open>image_fake\<close> and \<open>d_real\<close> to the second half.
  \<^verbatim>\<open>
  image_fake = gen(mask)
  d_real = disc(mask, image_real)
  target = torch.ones_like(d_real)
  if config.SMOOTH_POSITIVE_LABELS: target = utils.smooth_positive_labels(target)
  d_real_loss = bce(d_real, target)
  d_fake = disc(mask, image_fake.detach())
  target = torch.zeros_like(d_fake)
  if config.SMOOTH_NEGATIVE_LABELS: target = utils.smooth_negative_labels(target)
  d_fake_loss = bce(d_fake, target)
  d_loss = (d_real_loss + d_fake_loss) / 2
  disc_losses.append(d_loss.item())
  opt_disc.zero_grad()
  d_scaler.scale(d_loss).backward()
  d_scaler.step(opt_disc)
  d_scaler.update()
  \<close>
\<close>

definition train_discriminator ::
  "torch_ops \<Rightarrow> config \<Rightarrow> (tensor \<Rightarrow> tensor \<Rightarrow> real) \<Rightarrow> tensor \<times> tensor
   \<Rightarrow> train_state \<times> histories \<Rightarrow> (tensor \<times> tensor) \<times> train_state \<times> histories" where
  "train_discriminator ops cfg bce batch sh =
     (let (st, h) = sh;
          (image_real, msk) = batch;
          (image_fake, st) = call_gen ops msk st;
          (d_real, st) = call_disc ops msk image_real st;
          (target_real, st) =
             smooth_if (SMOOTH_POSITIVE_LABELS cfg) smooth_positive_labels (ones_like d_real) st;
          d_real_loss = bce d_real target_real;
          (d_fake, st) = call_disc ops msk image_fake st;
          (target_fake, st) =
             smooth_if (SMOOTH_NEGATIVE_LABELS cfg) smooth_negative_labels (zeros_like d_fake) st;
          d_fake_loss = bce d_fake target_fake;
          d_loss = (d_real_loss + d_fake_loss) / 2;
          h = h\<lparr>disc_losses := disc_losses h @ [d_loss]\<rparr>;
          st = zero_grad_disc st;
          st = backward_d_loss ops msk image_real image_fake target_real target_fake st;
          st = d_scaler_step ops st;
          st = d_scaler_update ops st
      in ((image_fake, d_real), st, h))"

text \<open>
  The second half, which hands \<open>d_fake\<close> to the progress display.
  \<^verbatim>\<open>
  d_fake = disc(mask, image_fake)
  g_fake_loss = bce(d_fake, torch.ones_like(d_fake))
  l1 = l1_loss(image_fake, image_real) * config.L1_LAMBDA
  g_loss = g_fake_loss + l1
  gen_l1_losses.append(l1.item())
  gen_adv_losses.append(g_fake_loss.item())
  opt_gen.zero_grad()
  g_scaler.scale(g_loss).backward()
  g_scaler.step(opt_gen)
  g_scaler.update()
  \<close>
\<close>

definition train_generator ::
  "torch_ops \<Rightarrow> config \<Rightarrow> (tensor \<Rightarrow> tensor \<Rightarrow> real) \<Rightarrow> (tensor \<Rightarrow> tensor \<Rightarrow> real)
   \<Rightarrow> tensor \<times> tensor \<Rightarrow> tensor \<Rightarrow> train_state \<times> histories \<Rightarrow> tensor \<times> train_state \<times> histories" where
  "train_generator ops cfg l1_loss bce batch image_fake sh =
     (let (st, h) = sh;
          (image_real, msk) = batch;
          (d_fake, st) = call_disc ops msk image_fake st;
          g_fake_loss = bce d_fake (ones_like d_fake);
          l1 = l1_loss image_fake image_real * L1_LAMBDA cfg;
          h = h\<lparr>gen_l1_losses := gen_l1_losses h @ [l1]\<rparr>;
          h = h\<lparr>gen_adv_losses := gen_adv_losses h @ [g_fake_loss]\<rparr>;
          st = zero_grad_gen st;
          st = backward_g_loss ops cfg msk image_real st;
          st = g_scaler_step ops st;
          st = g_scaler_update ops st
      in (d_fake, st, h))"

text \<open>
  One pass of the loop body at index \<open>idx\<close>: the two halves, then
  \<^verbatim>\<open>
  if (idx + 1) % 10 == 0:
      loop.set_postfix(D_real=torch.sigmoid(d_real).mean().item(),
                       D_fake=torch.sigmoid(d_fake).mean().item())
  \<close>
\<close>

definition train_step ::
  "torch_ops \<Rightarrow> config \<Rightarrow> (tensor \<Rightarrow> tensor \<Rightarrow> real) \<Rightarrow> (tensor \<Rightarrow> tensor \<Rightarrow> real) \<Rightarrow> nat
   \<Rightarrow> tensor \<times> tensor \<Rightarrow> train_state \<times> histories \<Rightarrow> train_state \<times> histories" where
  "train_step ops cfg l1_loss bce idx batch sh =
     (let ((image_fake, d_real), sh) = train_discriminator ops cfg bce batch sh;
          (d_fake, st, h) = train_generator ops cfg l1_loss bce batch image_fake sh;
          st = (if (idx + 1) mod 10 = 0
                then log_call (SetPostfix (sigmoid_mean ops d_real) (sigmoid_mean ops d_fake)) st
                else st)
      in (st, h))"

text \<open>\<^verbatim>\<open>for idx, (image_real, mask) in enumerate(loop):\<close>\<close>

fun train_batches ::
  "torch_ops \<Rightarrow> config \<Rightarrow> (tensor \<Rightarrow> tensor \<Rightarrow> real) \<Rightarrow> (tensor \<Rightarrow> tensor \<Rightarrow> real) \<Rightarrow> nat
   \<Rightarrow> (tensor \<times> tensor) list \<Rightarrow> train_state \<times> histories \<Rightarrow> train_state \<times> histories" where
  "train_batches ops cfg l1_loss bce idx [] sh = sh"
| "train_batches ops cfg l1_loss bce idx (batch # rest) sh =
     train_batches ops cfg l1_loss bce (Suc idx) rest (train_step ops cfg l1_loss bce idx batch sh)"

text \<open>
  \<open>np.mean\<close> of a list of numbers: the mean of an empty list is NaN (with a warning, not
  an exception).
\<close>

datatype npfloat = NaN | Float real

definition np_mean :: "real list \<Rightarrow> npfloat" where
  "np_mean xs = (if xs = [] then NaN else Float (sum_list xs / real (length xs)))"

text \<open>
  The state and the three loss histories at the end of the loop:
  \<^verbatim>\<open>
  disc_losses = []; gen_l1_losses = []; gen_adv_losses = []
  gen.train()
  disc.train()
  for idx, (image_real, mask) in enumerate(loop): ...
  \<close>
\<close>

definition train_fn_loop ::
  "torch_ops \<Rightarrow> config \<Rightarrow> (tensor \<Rightarrow> tensor \<Rightarrow> real) \<Rightarrow> (tensor \<Rightarrow> tensor \<Rightarrow> real)
   \<Rightarrow> (tensor \<times> tensor) list \<Rightarrow> train_state \<Rightarrow> train_state \<times> histories" where
  "train_fn_loop ops cfg l1_loss bce loader st =
     (let h = \<lparr>disc_losses = [], gen_l1_losses = [], gen_adv_losses = []\<rparr>;
          st = log_call (SetTrain Gen) (st\<lparr>gen := (gen st)\<lparr>training := True\<rparr>\<rparr>);
          st = log_call (SetTrain Disc) (st\<lparr>disc := (disc st)\<lparr>training := True\<rparr>\<rparr>)
      in train_batches ops cfg l1_loss bce 0 loader (st, h))"

text \<open>
  \<^verbatim>\<open>return np.mean(gen_adv_losses), np.mean(gen_l1_losses), np.mean(disc_losses)\<close>
\<close>

definition train_fn ::
  "torch_ops \<Rightarrow> config \<Rightarrow> (tensor \<Rightarrow> tensor \<Rightarrow> real) \<Rightarrow> (tensor \<Rightarrow> tensor \<Rightarrow> real)
   \<Rightarrow> (tensor \<times> tensor) list \<Rightarrow> train_state
   \<Rightarrow> (npfloat \<times> npfloat \<times> npfloat) \<times> train_state" where
  "train_fn ops cfg l1_loss bce loader st =
     (let (st, h) = train_fn_loop ops cfg l1_loss bce loader st
      in ((np_mean (gen_adv_losses h), np_mean (gen_l1_losses h), np_mean (disc_losses h)), st))"

section \<open>The exponent of a number\<close>

lemma exponent_from_range: "e - int n \<le> exponent_from n e x \<and> exponent_from n e x \<le> e"
proof (induction n arbitrary: e)
  case 0
  show ?case by simp
next
  case (Suc n)
  from Suc.IH [of "e - 1"] show ?case by simp
qed

lemma exponent_from_found:
  "e - int n < exponent_from n e x \<Longrightarrow> 2 powi (exponent_from n e x) \<le> \<bar>x\<bar>"
proof (induction n arbitrary: e)
  case 0
  then show ?case by simp
next
  case (Suc n)
  show ?case
  proof (cases "2 powi e \<le> \<bar>x\<bar>")
    case True
    then show ?thesis by simp
  next
    case False
    with Suc.prems have "e - 1 - int n < exponent_from n (e - 1) x" by simp
    from Suc.IH [OF this] False show ?thesis by simp
  qed
qed

lemma exponent_from_passed:
  "exponent_from n e x < e \<Longrightarrow> \<bar>x\<bar> < 2 powi (exponent_from n e x + 1)"
proof (induction n arbitrary: e)
  case 0
  then show ?case by simp
next
  case (Suc n)
  show ?case
  proof (cases "2 powi e \<le> \<bar>x\<bar>")
    case True
    with Suc.prems show ?thesis by simp
  next
    case False
    show ?thesis
    proof (cases "exponent_from n (e - 1) x < e - 1")
      case True
      from Suc.IH [OF this] False show ?thesis by simp
    next
      case f: False
      with exponent_from_range [of "e - 1" n x] have "exponent_from n (e - 1) x = e - 1" by simp
      with False show ?thesis by simp
    qed
  qed
qed

lemma emin_le_emax: "emin dt \<le> emax dt"
  by (cases dt) simp_all


lemma exponent_found: "emin dt < exponent dt x \<Longrightarrow> 2 powi (exponent dt x) \<le> \<bar>x\<bar>"
  using exponent_from_found [of "emax dt" "nat (emax dt - emin dt)" x] emin_le_emax [of dt]
  by (simp add: exponent_def)

lemma exponent_passed: "exponent dt x < emax dt \<Longrightarrow> \<bar>x\<bar> < 2 powi (exponent dt x + 1)"
  using exponent_from_passed [of "nat (emax dt - emin dt)" "emax dt" x]
  by (simp add: exponent_def)

lemma exponent_eq:
  assumes "emin dt \<le> e" "e \<le> emax dt" "2 powi e \<le> \<bar>x\<bar>" "\<bar>x\<bar> < 2 powi (e + 1)"
  shows "exponent dt x = e"
proof (rule ccontr)
  assume ne: "exponent dt x \<noteq> e"
  show False
  proof (cases "exponent dt x < e")
    case True
    with assms have "exponent dt x < emax dt" by simp
    from exponent_passed [OF this] have "\<bar>x\<bar> < 2 powi (exponent dt x + 1)" .
    also from True have "(2::real) powi (exponent dt x + 1) \<le> 2 powi e"
      by (intro power_int_increasing) simp_all
    finally show False using assms by simp
  next
    case False
    with ne have gt: "e < exponent dt x" by simp
    with assms have "emin dt < exponent dt x" by simp
    from exponent_found [OF this] have "2 powi (exponent dt x) \<le> \<bar>x\<bar>" .
    moreover from gt have "(2::real) powi (e + 1) \<le> 2 powi (exponent dt x)"
      by (intro power_int_increasing) simp_all
    ultimately show False using assms by simp
  qed
qed



section \<open>Rounding to an integer\<close>

lemma round_half_even_of_int [simp]: "round_half_even (of_int k) = k"
  by (simp add: round_half_even_def)




section \<open>Rounding to a dtype\<close>

lemma ulp_pos: "0 < ulp dt x"
  by (simp add: ulp_def)

lemma fl_0 [simp]: "fl dt 0 = 0"
  using round_half_even_of_int [of 0] by (simp add: fl_def del: round_half_even_of_int)

lemma fl_exact:
  assumes "x = ulp dt x * of_int k"
  shows "fl dt x = x"
proof -
  have "x / ulp dt x = of_int k"
    using assms ulp_pos [of dt x] by (simp add: field_simps)
  then show ?thesis using assms by (simp add: fl_def)
qed


lemma precision_pos: "1 \<le> precision dt"
  by (cases dt) simp_all

lemma pow_exponent_split:
  "(2::real) powi e = 2 powi (e - int (precision dt) + 1) * of_int (2 ^ (precision dt - 1))"
proof -
  have "e = (e - int (precision dt) + 1) + int (precision dt - 1)"
    using precision_pos [of dt] by simp
  then have "(2::real) powi e = 2 powi ((e - int (precision dt) + 1) + int (precision dt - 1))"
    by simp
  also have "\<dots> = 2 powi (e - int (precision dt) + 1) * 2 powi (int (precision dt - 1))"
    by (rule power_int_add) simp
  finally show ?thesis by simp
qed






section \<open>The values of the label smoothing\<close>

lemma emin_emax_bounds: "emin dt \<le> - 14" "15 \<le> emax dt"
  by (cases dt; simp)+












lemma fl_one [simp]: "fl dt 1 = 1"
proof -
  have "exponent dt 1 = 0"
    using emin_emax_bounds [of dt] by (intro exponent_eq) simp_all
  then have "ulp dt 1 = 2 powi (0 - int (precision dt) + 1)" by (simp add: ulp_def)
  with pow_exponent_split [of 0 dt] have "1 = ulp dt 1 * of_int (2 ^ (precision dt - 1))"
    by simp
  then show ?thesis by (rule fl_exact)
qed





section \<open>Label-smoothing bounds\<close>







section \<open>The training transform\<close>

text \<open>
  C2. \<open>load_dataset_UTP\<close> builds its training transform as the list of a center crop to
  256, a random horizontal flip, a random vertical flip and \<open>utils.RandomRotate90()\<close>, in
  this order. utils.py binds no name \<open>RandomRotate90\<close>, so for every set of manifests and
  every configuration the call raises AttributeError while the list is being built,
  before any manifest is read: the construction of the training transform does not
  succeed, and no loader is returned.
\<close>

theorem load_dataset_UTP_raises:
  "load_dataset_UTP csv_files cfg = Inl (AttributeError ''utils'' ''RandomRotate90'')"
  by (simp add: load_dataset_UTP_def module_getattr_def utils_module_def)

section \<open>Grade filtering of the manifests\<close>

lemma df_select_grade_ge:
  "df_select df (grade_ge df c) = filter (\<lambda>r. \<exists>g. grade r = Some g \<and> c \<le> g) df"
proof (induction df)
  case Nil
  show ?case by (simp add: df_select_def grade_ge_def)
next
  case (Cons r df)
  then show ?case
    by (cases "grade r") (simp_all add: df_select_def grade_ge_def)
qed

lemma load_manifest_filters:
  assumes "csv_files (os_path_join path name) = Some df"
  shows "load_manifest csv_files path name =
           Inr (filter (\<lambda>r. \<exists>g. grade r = Some g \<and> 0 \<le> g) df)"
  using assms by (simp add: load_manifest_def read_csv_def df_select_grade_ge)

text \<open>
  C6. Dataset loading returns no split. With a train and a test manifest in place whose
  rows have the grades -1, 0, 2, -5 and 3, \<open>load_dataset_UTP\<close> raises AttributeError on
  \<open>utils.RandomRotate90\<close> before it reads either file, so no split holding the three rows
  of grade 0, 2 and 3 is loaded; the two manifest lines, had they been reached, keep
  exactly the rows whose grade is present and at least 0 (\<open>load_manifest_filters\<close>).
\<close>

theorem load_dataset_UTP_loads_no_split:
  "load_dataset_UTP
     [os_path_join ''../data/unitopath-public/800'' ''train.csv'' \<mapsto>
        [\<lparr>image_id = ''a'', grade = Some (- 1)\<rparr>, \<lparr>image_id = ''b'', grade = Some 0\<rparr>,
         \<lparr>image_id = ''c'', grade = Some 2\<rparr>, \<lparr>image_id = ''d'', grade = Some (- 5)\<rparr>,
         \<lparr>image_id = ''e'', grade = Some 3\<rparr>],
      os_path_join ''../data/unitopath-public/800'' ''test.csv'' \<mapsto>
        [\<lparr>image_id = ''a'', grade = Some (- 1)\<rparr>, \<lparr>image_id = ''b'', grade = Some 0\<rparr>,
         \<lparr>image_id = ''c'', grade = Some 2\<rparr>, \<lparr>image_id = ''d'', grade = Some (- 5)\<rparr>,
         \<lparr>image_id = ''e'', grade = Some 3\<rparr>]]
     cfg
   = Inl (AttributeError ''utils'' ''RandomRotate90'')"
  by (simp add: load_dataset_UTP_def module_getattr_def utils_module_def)

section \<open>Checkpoints saved by main\<close>

lemma save_points_append: "save_points who (xs @ ys) = save_points who xs @ save_points who ys"
  by (simp add: save_points_def)

lemma save_points_epoch_body:
  "save_points who (map (Pair (Some e)) (epoch_body cfg e)) =
     (if SAVE_MODEL cfg \<and> e mod 5 = 0 then [Some e] else [])"
  by (cases who) (auto simp: save_points_def epoch_body_def)

lemma save_points_epochs_loop:
  "save_points who (epochs_loop cfg es) =
     (if SAVE_MODEL cfg then map Some (filter (\<lambda>e. e mod 5 = 0) es) else [])"
proof (induction es)
  case Nil
  show ?case by (simp add: save_points_def)
next
  case (Cons e es)
  then show ?case by (simp add: save_points_append save_points_epoch_body)
qed

lemma save_points_after_loop: "save_points who (map (Pair None) (after_loop cfg)) = [None]"
  by (cases who) (auto simp: save_points_def after_loop_def)

lemma main_training_save_points:
  "save_points Gen (main_training cfg) =
     (if SAVE_MODEL cfg then map Some (filter (\<lambda>e. e mod 5 = 0) [0..<nat (NUM_EPOCHS cfg)]) else [])
       @ [None]
   \<and> save_points Disc (main_training cfg) = save_points Gen (main_training cfg)"
  by (simp add: main_training_def save_points_append save_points_epochs_loop
      save_points_after_loop)

text \<open>
  C4. A run of \<open>main\<close> saves no checkpoint. With 12 epochs and checkpointing enabled,
  whatever the other settings and the manifests are, \<open>main\<close> ends with the AttributeError
  that \<open>load_dataset_UTP\<close> raises on \<open>utils.RandomRotate90\<close>, before the first epoch: it
  makes no call of the loop, and it saves neither network's checkpoint, neither at the
  epochs 0, 5 and 10 nor after the loop. The loop and the statements after it, had they
  been reached, save at the epochs divisible by 5 and once at the end
  (\<open>main_training_save_points\<close>).
\<close>

theorem main_saves_no_checkpoint:
  "main csv_files (cfg\<lparr>NUM_EPOCHS := 12, SAVE_MODEL := True\<rparr>) =
     ([], Some (AttributeError ''utils'' ''RandomRotate90''))
 \<and> save_points Gen (fst (main csv_files (cfg\<lparr>NUM_EPOCHS := 12, SAVE_MODEL := True\<rparr>))) = []
 \<and> save_points Disc (fst (main csv_files (cfg\<lparr>NUM_EPOCHS := 12, SAVE_MODEL := True\<rparr>))) = []"
  by (simp add: main_def load_dataset_UTP_def module_getattr_def utils_module_def
      save_points_def)

section \<open>Selectivity of init\_weights\<close>

text \<open>
  C5. \<open>init_weights\<close> replaces the weight of a submodule by draws of the normal sampler
  with mean 0.0 and standard deviation 0.02 when the submodule's type is exactly the 2D
  convolution or the 2D transposed convolution; a submodule of any other type, a subclass
  of one of the two included, is returned unchanged and consumes no draw; and the bias
  and the type of a submodule never change.
\<close>

theorem init_weights_selectivity:
  "(mtype m = Conv2d \<or> mtype m = ConvTranspose2d \<longrightarrow> weight m = Some w \<longrightarrow>
      init_weights sampler m g =
        Inr (m\<lparr>weight := Some (w\<lparr>data := fst (sampler 0.0 0.02 (numel w) g)\<rparr>)\<rparr>,
             snd (sampler 0.0 0.02 (numel w) g)))
   \<and> (mtype m \<noteq> Conv2d \<and> mtype m \<noteq> ConvTranspose2d \<longrightarrow> init_weights sampler m g = Inr (m, g))
   \<and> init_weights sampler (m\<lparr>mtype := Subclass Conv2d name\<rparr>) g = Inr (m\<lparr>mtype := Subclass Conv2d name\<rparr>, g)
   \<and> init_weights sampler (m\<lparr>mtype := Subclass ConvTranspose2d name\<rparr>) g
        = Inr (m\<lparr>mtype := Subclass ConvTranspose2d name\<rparr>, g)
   \<and> (\<forall>m' g'. init_weights sampler m g = Inr (m', g') \<longrightarrow> bias m' = bias m \<and> mtype m' = mtype m)"
  by (auto simp: init_weights_def nn_init_normal_def Let_def split: option.splits prod.splits)

theorem init_weights_selectivity_witness:
  "init_weights (\<lambda>mean std n g. (replicate n mean, Suc g))
     \<lparr>mtype = Conv2d, weight = Some \<lparr>shape = [2], data = [1, 1], dtype = Float32\<rparr>, bias = Some \<lparr>shape = [1], data = [7], dtype = Float32\<rparr>\<rparr> (0::nat)
   = Inr (\<lparr>mtype = Conv2d, weight = Some \<lparr>shape = [2], data = [0, 0], dtype = Float32\<rparr>, bias = Some \<lparr>shape = [1], data = [7], dtype = Float32\<rparr>\<rparr>, 1)
   \<and> init_weights (\<lambda>mean std n g. (replicate n mean, Suc g))
     \<lparr>mtype = OtherModule ''BatchNorm2d'', weight = Some \<lparr>shape = [2], data = [1, 1], dtype = Float32\<rparr>, bias = Some \<lparr>shape = [1], data = [7], dtype = Float32\<rparr>\<rparr> (0::nat)
   = Inr (\<lparr>mtype = OtherModule ''BatchNorm2d'', weight = Some \<lparr>shape = [2], data = [1, 1], dtype = Float32\<rparr>, bias = Some \<lparr>shape = [1], data = [7], dtype = Float32\<rparr>\<rparr>, 0)"
  using init_weights_selectivity [of
      "\<lparr>mtype = Conv2d, weight = Some \<lparr>shape = [2], data = [1, 1], dtype = Float32\<rparr>, bias = Some \<lparr>shape = [1], data = [7], dtype = Float32\<rparr>\<rparr>"
      "\<lparr>shape = [2], data = [1, 1], dtype = Float32\<rparr>" "\<lambda>mean std n g. (replicate n mean, Suc g)" "0::nat"]
    init_weights_selectivity [of
      "\<lparr>mtype = OtherModule ''BatchNorm2d'', weight = Some \<lparr>shape = [2], data = [1, 1], dtype = Float32\<rparr>, bias = Some \<lparr>shape = [1], data = [7], dtype = Float32\<rparr>\<rparr>"
      _ "\<lambda>mean std n g. (replicate n mean, Suc g)" "0::nat"]
  by (simp add: numel_def numeral_2_eq_2)

section \<open>Checkpoint round trip\<close>

lemma load_state_dict_same_architecture:
  assumes "dom (state_dict m') = dom sd"
    and "\<forall>k \<in> dom sd. map_option shape (state_dict m' k) = map_option shape (sd k)"
  shows "load_state_dict m' (ModelState sd) = Inr (m'\<lparr>state_dict := sd\<rparr>)"
  using assms by (auto simp: load_state_dict_def)

lemma optimizer_load_state_dict_same_groups:
  assumes "map (\<lambda>g. length (params g)) (param_groups opt') = map (\<lambda>g. length (params g)) (param_groups sd)"
  shows "optimizer_load_state_dict opt' (OptimizerState sd) =
           Inr \<lparr>opt_state = opt_state sd,
                param_groups = map2 (\<lambda>g ng. ng\<lparr>params := params g\<rparr>) (param_groups opt') (param_groups sd)\<rparr>"
proof -
  from assms have "length (param_groups opt') = length (param_groups sd)"
    by (metis length_map)
  with assms show ?thesis by (simp add: optimizer_load_state_dict_def Let_def)
qed

text \<open>
  C1. Let a model and its optimizer be saved to a writable file \<open>f\<close>, and let the file be
  loaded with the learning rate \<open>lr\<close> into a second model and optimizer of the same
  architecture (the same parameter names and shapes, the same sizes of parameter groups),
  whatever their parameter values, buffers and hyper-parameters are. Both calls return;
  the second model then holds exactly the saved parameters, the second optimizer holds
  exactly the saved per-parameter state, every one of its parameter groups has the
  learning rate \<open>lr\<close> (not the saved one), and every other hyper-parameter of every group
  is the saved one.
\<close>

theorem checkpoint_roundtrip:
  assumes w: "writable fs f"
    and keys: "dom (state_dict model') = dom (state_dict model)"
    and shapes: "\<forall>k \<in> dom (state_dict model).
                   map_option shape (state_dict model' k) = map_option shape (state_dict model k)"
    and groups: "map (\<lambda>g. length (params g)) (param_groups optimizer') =
                 map (\<lambda>g. length (params g)) (param_groups optimizer)"
  shows "\<exists>fs' m opt.
           save_checkpoint model optimizer f fs = Inr fs'
         \<and> load_checkpoint f model' optimizer' lr fs' = Inr (m, opt)
         \<and> state_dict m = state_dict model
         \<and> opt_state opt = opt_state optimizer
         \<and> length (param_groups opt) = length (param_groups optimizer)
         \<and> (\<forall>i < length (param_groups optimizer).
               options (param_groups opt ! i) ''lr'' = Some (PyFloat lr)
             \<and> (\<forall>k. k \<noteq> ''lr'' \<longrightarrow>
                    options (param_groups opt ! i) k = options (param_groups optimizer ! i) k))"
proof -
  let ?ck = "[''state_dict'' \<mapsto> ModelState (state_dict model),
              ''optimizer'' \<mapsto> OptimizerState optimizer]"
  let ?fs' = "fs\<lparr>files := (files fs)(f \<mapsto> ?ck)\<rparr>"
  let ?loaded = "map2 (\<lambda>g ng. ng\<lparr>params := params g\<rparr>) (param_groups optimizer') (param_groups optimizer)"
  let ?opt = "\<lparr>opt_state = opt_state optimizer,
               param_groups = map (\<lambda>param_group. param_group\<lparr>options := (options param_group)(''lr'' \<mapsto> PyFloat lr)\<rparr>) ?loaded\<rparr>"
  have len: "length (param_groups optimizer') = length (param_groups optimizer)"
    using groups by (metis length_map)
  have save: "save_checkpoint model optimizer f fs = Inr ?fs'"
    using w by (simp add: save_checkpoint_def torch_save_def)
  have load: "load_checkpoint f model' optimizer' lr ?fs' = Inr (model'\<lparr>state_dict := state_dict model\<rparr>, ?opt)"
    by (simp add: load_checkpoint_def torch_load_def
        load_state_dict_same_architecture [OF keys shapes]
        optimizer_load_state_dict_same_groups [OF groups])
  have grp: "options (param_groups ?opt ! i) ''lr'' = Some (PyFloat lr)
           \<and> (\<forall>k. k \<noteq> ''lr'' \<longrightarrow> options (param_groups ?opt ! i) k = options (param_groups optimizer ! i) k)"
    if "i < length (param_groups optimizer)" for i
    using that len by simp
  from save load grp len show ?thesis by simp
qed

theorem checkpoint_roundtrip_witness:
  "(let fs = \<lparr>writable = (\<lambda>p. True), files = Map.empty\<rparr>;
        model = \<lparr>state_dict = [''w'' \<mapsto> \<lparr>shape = [2], data = [1, 2], dtype = Float32\<rparr>], grads = Map.empty, training = True\<rparr>;
        model' = \<lparr>state_dict = [''w'' \<mapsto> \<lparr>shape = [2], data = [0, 0], dtype = Float32\<rparr>], grads = Map.empty, training = True\<rparr>;
        optimizer = \<lparr>opt_state = [0 \<mapsto> [''exp_avg'' \<mapsto> \<lparr>shape = [2], data = [3, 4], dtype = Float32\<rparr>]],
                     param_groups = [\<lparr>params = [0], options = [''lr'' \<mapsto> PyFloat (1/10), ''eps'' \<mapsto> PyFloat (1/100)]\<rparr>]\<rparr>;
        optimizer' = \<lparr>opt_state = Map.empty,
                      param_groups = [\<lparr>params = [0], options = [''lr'' \<mapsto> PyFloat (1/2), ''eps'' \<mapsto> PyFloat 0]\<rparr>]\<rparr>
    in writable fs ''gen.pth.tar''
     \<and> dom (state_dict model') = dom (state_dict model)
     \<and> (\<exists>fs' m opt.
           save_checkpoint model optimizer ''gen.pth.tar'' fs = Inr fs'
         \<and> load_checkpoint ''gen.pth.tar'' model' optimizer' (1/5) fs' = Inr (m, opt)
         \<and> state_dict m = state_dict model
         \<and> opt_state opt = opt_state optimizer
         \<and> map (\<lambda>g. options g ''lr'') (param_groups opt) = [Some (PyFloat (1/5))]
         \<and> map (\<lambda>g. options g ''eps'') (param_groups opt) = [Some (PyFloat (1/100))]))"
proof -
  let ?fs = "\<lparr>writable = (\<lambda>p. True), files = Map.empty\<rparr> :: filesystem"
  let ?model = "\<lparr>state_dict = [''w'' \<mapsto> \<lparr>shape = [2], data = [1, 2], dtype = Float32\<rparr>], grads = Map.empty, training = True\<rparr>"
  let ?model' = "\<lparr>state_dict = [''w'' \<mapsto> \<lparr>shape = [2], data = [0, 0], dtype = Float32\<rparr>], grads = Map.empty, training = True\<rparr>"
  let ?optimizer = "\<lparr>opt_state = [0 \<mapsto> [''exp_avg'' \<mapsto> \<lparr>shape = [2], data = [3, 4], dtype = Float32\<rparr>]],
                     param_groups = [\<lparr>params = [0], options = [''lr'' \<mapsto> PyFloat (1/10), ''eps'' \<mapsto> PyFloat (1/100)]\<rparr>]\<rparr>"
  let ?optimizer' = "\<lparr>opt_state = Map.empty,
                      param_groups = [\<lparr>params = [0], options = [''lr'' \<mapsto> PyFloat (1/2), ''eps'' \<mapsto> PyFloat 0]\<rparr>]\<rparr>"
  have w: "writable ?fs ''gen.pth.tar''" by simp
  have keys: "dom (state_dict ?model') = dom (state_dict ?model)" by simp
  have shapes: "\<forall>k \<in> dom (state_dict ?model).
      map_option shape (state_dict ?model' k) = map_option shape (state_dict ?model k)" by simp
  have groups: "map (\<lambda>g. length (params g)) (param_groups ?optimizer') =
                 map (\<lambda>g. length (params g)) (param_groups ?optimizer)" by simp
  from checkpoint_roundtrip [OF w keys shapes groups, of "1/5"]
  obtain fs' m opt where
    r: "save_checkpoint ?model ?optimizer ''gen.pth.tar'' ?fs = Inr fs'"
       "load_checkpoint ''gen.pth.tar'' ?model' ?optimizer' (1/5) fs' = Inr (m, opt)"
       "state_dict m = state_dict ?model"
       "opt_state opt = opt_state ?optimizer"
       "length (param_groups opt) = length (param_groups ?optimizer)"
       "\<forall>i < length (param_groups ?optimizer).
               options (param_groups opt ! i) ''lr'' = Some (PyFloat (1/5))
             \<and> (\<forall>k. k \<noteq> ''lr'' \<longrightarrow>
                    options (param_groups opt ! i) k = options (param_groups ?optimizer ! i) k)"
    by blast
  from r(5) obtain g where g: "param_groups opt = [g]"
    by (cases "param_groups opt") simp_all
  from r(6) g have "options g ''lr'' = Some (PyFloat (1/5))" "options g ''eps'' = Some (PyFloat (1/100))"
    by simp_all
  with r g w keys show ?thesis
    unfolding Let_def
    by (intro conjI exI [of _ fs'] exI [of _ m] exI [of _ opt]) simp_all
qed

section \<open>The steps of the loop body\<close>

lemma log_call_sel [simp]:
  "training (gen (log_call c st)) = training (gen st)"
  "training (disc (log_call c st)) = training (disc st)"
  "calls (log_call c st) = calls st @ [c]"
  by (simp_all add: log_call_def)

lemma call_gen_sel [simp]:
  "training (gen (snd (call_gen ops msk st))) = training (gen st)"
  "training (disc (snd (call_gen ops msk st))) = training (disc st)"
  "calls (snd (call_gen ops msk st)) = calls st @ [Forward Gen (training (gen st))]"
  by (simp_all add: call_gen_def)

lemma call_disc_sel [simp]:
  "training (gen (snd (call_disc ops msk img st))) = training (gen st)"
  "training (disc (snd (call_disc ops msk img st))) = training (disc st)"
  "calls (snd (call_disc ops msk img st)) = calls st @ [Forward Disc (training (disc st))]"
  by (simp_all add: call_disc_def)

lemma smooth_if_sel [simp]:
  "training (gen (snd (smooth_if flag smooth target st))) = training (gen st)"
  "training (disc (snd (smooth_if flag smooth target st))) = training (disc st)"
  "calls (snd (smooth_if flag smooth target st)) = calls st"
  by (simp_all add: smooth_if_def)

lemma disc_update_sel [simp]:
  "training (gen (zero_grad_disc st)) = training (gen st)"
  "training (disc (zero_grad_disc st)) = training (disc st)"
  "calls (zero_grad_disc st) = calls st @ [ZeroGrad Disc]"
  "training (gen (backward_d_loss ops msk ir ifk tr tf st)) = training (gen st)"
  "training (disc (backward_d_loss ops msk ir ifk tr tf st)) = training (disc st)"
  "calls (backward_d_loss ops msk ir ifk tr tf st) = calls st @ [Backward Disc]"
  "training (gen (d_scaler_step ops st)) = training (gen st)"
  "training (disc (d_scaler_step ops st)) = training (disc st)"
  "calls (d_scaler_step ops st) = calls st @ [ScalerStep Disc]"
  "training (gen (d_scaler_update ops st)) = training (gen st)"
  "training (disc (d_scaler_update ops st)) = training (disc st)"
  "calls (d_scaler_update ops st) = calls st @ [ScalerUpdate Disc]"
  by (simp_all add: zero_grad_disc_def backward_d_loss_def d_scaler_step_def
      d_scaler_update_def case_prod_beta)

lemma gen_update_sel [simp]:
  "training (gen (zero_grad_gen st)) = training (gen st)"
  "training (disc (zero_grad_gen st)) = training (disc st)"
  "calls (zero_grad_gen st) = calls st @ [ZeroGrad Gen]"
  "training (gen (backward_g_loss ops cfg msk ir st)) = training (gen st)"
  "training (disc (backward_g_loss ops cfg msk ir st)) = training (disc st)"
  "calls (backward_g_loss ops cfg msk ir st) = calls st @ [Backward Gen]"
  "training (gen (g_scaler_step ops st)) = training (gen st)"
  "training (disc (g_scaler_step ops st)) = training (disc st)"
  "calls (g_scaler_step ops st) = calls st @ [ScalerStep Gen]"
  "training (gen (g_scaler_update ops st)) = training (gen st)"
  "training (disc (g_scaler_update ops st)) = training (disc st)"
  "calls (g_scaler_update ops st) = calls st @ [ScalerUpdate Gen]"
  by (simp_all add: zero_grad_gen_def backward_g_loss_def g_scaler_step_def
      g_scaler_update_def case_prod_beta)

lemma train_discriminator_sel:
  "training (gen (fst (snd (train_discriminator ops cfg bce batch sh)))) = training (gen (fst sh))"
  "training (disc (fst (snd (train_discriminator ops cfg bce batch sh)))) = training (disc (fst sh))"
  "calls (fst (snd (train_discriminator ops cfg bce batch sh))) =
     calls (fst sh) @
     [Forward Gen (training (gen (fst sh))), Forward Disc (training (disc (fst sh))),
      Forward Disc (training (disc (fst sh))), ZeroGrad Disc, Backward Disc, ScalerStep Disc,
      ScalerUpdate Disc]"
  "disc_losses (snd (snd (train_discriminator ops cfg bce batch sh))) =
     butlast (disc_losses (snd (snd (train_discriminator ops cfg bce batch sh)))) @
     [last (disc_losses (snd (snd (train_discriminator ops cfg bce batch sh))))]"
  "butlast (disc_losses (snd (snd (train_discriminator ops cfg bce batch sh)))) = disc_losses (snd sh)"
  "gen_l1_losses (snd (snd (train_discriminator ops cfg bce batch sh))) = gen_l1_losses (snd sh)"
  "gen_adv_losses (snd (snd (train_discriminator ops cfg bce batch sh))) = gen_adv_losses (snd sh)"
  by (simp_all add: train_discriminator_def Let_def case_prod_beta)

lemma train_discriminator_hist:
  "disc_losses (snd (snd (train_discriminator ops cfg bce batch sh))) =
     disc_losses (snd sh) @ [last (disc_losses (snd (snd (train_discriminator ops cfg bce batch sh))))]"
  by (simp add: train_discriminator_def Let_def case_prod_beta)

lemma train_generator_sel:
  "training (gen (fst (snd (train_generator ops cfg l1_loss bce batch image_fake sh)))) = training (gen (fst sh))"
  "training (disc (fst (snd (train_generator ops cfg l1_loss bce batch image_fake sh)))) = training (disc (fst sh))"
  "calls (fst (snd (train_generator ops cfg l1_loss bce batch image_fake sh))) =
     calls (fst sh) @
     [Forward Disc (training (disc (fst sh))), ZeroGrad Gen, Backward Gen, ScalerStep Gen,
      ScalerUpdate Gen]"
  "disc_losses (snd (snd (train_generator ops cfg l1_loss bce batch image_fake sh))) = disc_losses (snd sh)"
  by (simp_all add: train_generator_def Let_def case_prod_beta)

lemma train_generator_hist:
  "gen_l1_losses (snd (snd (train_generator ops cfg l1_loss bce batch image_fake sh))) =
     gen_l1_losses (snd sh) @
     [last (gen_l1_losses (snd (snd (train_generator ops cfg l1_loss bce batch image_fake sh))))]"
  "gen_adv_losses (snd (snd (train_generator ops cfg l1_loss bce batch image_fake sh))) =
     gen_adv_losses (snd sh) @
     [last (gen_adv_losses (snd (snd (train_generator ops cfg l1_loss bce batch image_fake sh))))]"
  by (simp_all add: train_generator_def Let_def case_prod_beta)

lemma train_step_fst:
  "fst (train_step ops cfg l1_loss bce idx batch sh) =
     (let st = fst (snd (train_generator ops cfg l1_loss bce batch
                 (fst (fst (train_discriminator ops cfg bce batch sh)))
                 (snd (train_discriminator ops cfg bce batch sh))))
      in if (idx + 1) mod 10 = 0
         then log_call (SetPostfix
                (sigmoid_mean ops (snd (fst (train_discriminator ops cfg bce batch sh))))
                (sigmoid_mean ops (fst (train_generator ops cfg l1_loss bce batch
                   (fst (fst (train_discriminator ops cfg bce batch sh)))
                   (snd (train_discriminator ops cfg bce batch sh)))))) st
         else st)"
  by (simp add: train_step_def Let_def case_prod_beta)

lemma train_step_snd:
  "snd (train_step ops cfg l1_loss bce idx batch sh) =
     snd (snd (train_generator ops cfg l1_loss bce batch
                 (fst (fst (train_discriminator ops cfg bce batch sh)))
                 (snd (train_discriminator ops cfg bce batch sh))))"
  by (simp add: train_step_def Let_def case_prod_beta)

lemma train_step_modes:
  "training (gen (fst (train_step ops cfg l1_loss bce idx batch sh))) = training (gen (fst sh))"
  "training (disc (fst (train_step ops cfg l1_loss bce idx batch sh))) = training (disc (fst sh))"
  by (simp_all add: train_step_fst Let_def train_generator_sel train_discriminator_sel)

lemma train_step_calls:
  "\<exists>pf. calls (fst (train_step ops cfg l1_loss bce idx batch sh)) =
      calls (fst sh) @
      [Forward Gen (training (gen (fst sh))), Forward Disc (training (disc (fst sh))),
       Forward Disc (training (disc (fst sh))), ZeroGrad Disc, Backward Disc, ScalerStep Disc,
       ScalerUpdate Disc, Forward Disc (training (disc (fst sh))), ZeroGrad Gen, Backward Gen,
       ScalerStep Gen, ScalerUpdate Gen] @ pf
    \<and> (pf = [] \<or> (\<exists>a b. pf = [SetPostfix a b]))"
  by (simp add: train_step_fst Let_def train_generator_sel train_discriminator_sel)

lemma train_step_hist:
  "\<exists>v. disc_losses (snd (train_step ops cfg l1_loss bce idx batch sh)) = disc_losses (snd sh) @ [v]"
  "\<exists>v. gen_l1_losses (snd (train_step ops cfg l1_loss bce idx batch sh)) = gen_l1_losses (snd sh) @ [v]"
  "\<exists>v. gen_adv_losses (snd (train_step ops cfg l1_loss bce idx batch sh)) = gen_adv_losses (snd sh) @ [v]"
proof -
  let ?d = "train_discriminator ops cfg bce batch sh"
  let ?g = "train_generator ops cfg l1_loss bce batch (fst (fst ?d)) (snd ?d)"
  have "disc_losses (snd (snd ?g)) = disc_losses (snd (snd ?d))"
    by (simp add: train_generator_sel)
  with train_discriminator_hist [of ops cfg bce batch sh]
  show "\<exists>v. disc_losses (snd (train_step ops cfg l1_loss bce idx batch sh)) = disc_losses (snd sh) @ [v]"
    unfolding train_step_snd by metis
  have "gen_l1_losses (snd (snd ?d)) = gen_l1_losses (snd sh)"
    by (simp add: train_discriminator_sel)
  with train_generator_hist(1) [of ops cfg l1_loss bce batch "fst (fst ?d)" "snd ?d"]
  show "\<exists>v. gen_l1_losses (snd (train_step ops cfg l1_loss bce idx batch sh)) = gen_l1_losses (snd sh) @ [v]"
    unfolding train_step_snd by metis
  have "gen_adv_losses (snd (snd ?d)) = gen_adv_losses (snd sh)"
    by (simp add: train_discriminator_sel)
  with train_generator_hist(2) [of ops cfg l1_loss bce batch "fst (fst ?d)" "snd ?d"]
  show "\<exists>v. gen_adv_losses (snd (train_step ops cfg l1_loss bce idx batch sh)) = gen_adv_losses (snd sh) @ [v]"
    unfolding train_step_snd by metis
qed

section \<open>The loop over the batches\<close>

lemma train_batches_modes:
  "training (gen (fst (train_batches ops cfg l1_loss bce idx batches sh))) = training (gen (fst sh))
 \<and> training (disc (fst (train_batches ops cfg l1_loss bce idx batches sh))) = training (disc (fst sh))"
  by (induction batches arbitrary: idx sh) (simp_all add: train_step_modes)

lemma train_batches_hist:
  "\<exists>ds ls as.
      disc_losses (snd (train_batches ops cfg l1_loss bce idx batches sh)) = disc_losses (snd sh) @ ds
    \<and> gen_l1_losses (snd (train_batches ops cfg l1_loss bce idx batches sh)) = gen_l1_losses (snd sh) @ ls
    \<and> gen_adv_losses (snd (train_batches ops cfg l1_loss bce idx batches sh)) = gen_adv_losses (snd sh) @ as
    \<and> length ds = length batches \<and> length ls = length batches \<and> length as = length batches"
proof (induction batches arbitrary: idx sh)
  case Nil
  show ?case by simp
next
  case (Cons batch rest)
  let ?sh = "train_step ops cfg l1_loss bce idx batch sh"
  from train_step_hist [of ops cfg l1_loss bce idx batch sh]
  obtain d l a where step:
    "disc_losses (snd ?sh) = disc_losses (snd sh) @ [d]"
    "gen_l1_losses (snd ?sh) = gen_l1_losses (snd sh) @ [l]"
    "gen_adv_losses (snd ?sh) = gen_adv_losses (snd sh) @ [a]"
    by blast
  from Cons.IH [of "Suc idx" ?sh]
  obtain ds ls as where rest:
    "disc_losses (snd (train_batches ops cfg l1_loss bce (Suc idx) rest ?sh)) = disc_losses (snd ?sh) @ ds"
    "gen_l1_losses (snd (train_batches ops cfg l1_loss bce (Suc idx) rest ?sh)) = gen_l1_losses (snd ?sh) @ ls"
    "gen_adv_losses (snd (train_batches ops cfg l1_loss bce (Suc idx) rest ?sh)) = gen_adv_losses (snd ?sh) @ as"
    "length ds = length rest" "length ls = length rest" "length as = length rest"
    by blast
  show ?case
    apply (rule exI [of _ "d # ds"])
    apply (rule exI [of _ "l # ls"])
    apply (rule exI [of _ "a # as"])
    using step rest by simp
qed

lemma train_batches_calls:
  assumes "training (gen (fst sh))" and "training (disc (fst sh))"
  shows "\<exists>ev. calls (fst (train_batches ops cfg l1_loss bce idx batches sh)) = calls (fst sh) @ ev
            \<and> Forward Gen False \<notin> set ev \<and> Forward Disc False \<notin> set ev
            \<and> SetTrain Gen \<notin> set ev \<and> SetTrain Disc \<notin> set ev"
  using assms
proof (induction batches arbitrary: idx sh)
  case Nil
  show ?case by simp
next
  case (Cons batch rest)
  let ?sh = "train_step ops cfg l1_loss bce idx batch sh"
  from train_step_calls [of ops cfg l1_loss bce idx batch sh] Cons.prems
  obtain ev1 where step: "calls (fst ?sh) = calls (fst sh) @ ev1"
    "Forward Gen False \<notin> set ev1" "Forward Disc False \<notin> set ev1"
    "SetTrain Gen \<notin> set ev1" "SetTrain Disc \<notin> set ev1"
    by auto
  from Cons.prems have "training (gen (fst ?sh))" "training (disc (fst ?sh))"
    by (simp_all add: train_step_modes)
  from Cons.IH [OF this, of "Suc idx"]
  obtain ev2 where rest:
    "calls (fst (train_batches ops cfg l1_loss bce (Suc idx) rest ?sh)) = calls (fst ?sh) @ ev2"
    "Forward Gen False \<notin> set ev2" "Forward Disc False \<notin> set ev2"
    "SetTrain Gen \<notin> set ev2" "SetTrain Disc \<notin> set ev2"
    by blast
  show ?case
    apply (rule exI [of _ "ev1 @ ev2"])
    using step rest by simp
qed

section \<open>Epoch loss aggregation\<close>

lemma train_fn_loop_hist:
  "length (disc_losses (snd (train_fn_loop ops cfg l1_loss bce loader st))) = length loader
 \<and> length (gen_l1_losses (snd (train_fn_loop ops cfg l1_loss bce loader st))) = length loader
 \<and> length (gen_adv_losses (snd (train_fn_loop ops cfg l1_loss bce loader st))) = length loader"
proof -
  let ?h0 = "\<lparr>disc_losses = [], gen_l1_losses = [], gen_adv_losses = []\<rparr>"
  let ?st0 = "log_call (SetTrain Disc)
     ((log_call (SetTrain Gen) (st\<lparr>gen := (gen st)\<lparr>training := True\<rparr>\<rparr>))
        \<lparr>disc := (disc (log_call (SetTrain Gen) (st\<lparr>gen := (gen st)\<lparr>training := True\<rparr>\<rparr>)))
                   \<lparr>training := True\<rparr>\<rparr>)"
  have loop: "train_fn_loop ops cfg l1_loss bce loader st =
               train_batches ops cfg l1_loss bce 0 loader (?st0, ?h0)"
    by (simp add: train_fn_loop_def Let_def)
  from train_batches_hist [of ops cfg l1_loss bce 0 loader "(?st0, ?h0)"]
  show ?thesis unfolding loop by auto
qed

text \<open>
  C7. For every training iterator that yields \<open>n \<ge> 1\<close> batches, \<open>train_fn\<close> returns three
  numbers, in the order generator adversarial loss, generator L1 loss, discriminator loss;
  each of the three histories the loop has filled holds exactly \<open>n\<close> recorded values, one
  per batch, and each returned number is the sum of its history divided by \<open>n\<close>.
\<close>

theorem epoch_loss_aggregation:
  assumes "loader \<noteq> []"
  shows "(let h = snd (train_fn_loop ops cfg l1_loss bce loader st); n = length loader
          in fst (train_fn ops cfg l1_loss bce loader st) =
               (Float (sum_list (gen_adv_losses h) / real n),
                Float (sum_list (gen_l1_losses h) / real n),
                Float (sum_list (disc_losses h) / real n))
           \<and> length (gen_adv_losses h) = n
           \<and> length (gen_l1_losses h) = n
           \<and> length (disc_losses h) = n)"
proof -
  let ?h = "snd (train_fn_loop ops cfg l1_loss bce loader st)"
  from train_fn_loop_hist [of ops cfg l1_loss bce loader st]
  have len: "length (disc_losses ?h) = length loader" "length (gen_l1_losses ?h) = length loader"
    "length (gen_adv_losses ?h) = length loader"
    by simp_all
  with assms have ne: "disc_losses ?h \<noteq> []" "gen_l1_losses ?h \<noteq> []" "gen_adv_losses ?h \<noteq> []"
    by auto
  have "fst (train_fn ops cfg l1_loss bce loader st) =
          (np_mean (gen_adv_losses ?h), np_mean (gen_l1_losses ?h), np_mean (disc_losses ?h))"
    by (simp add: train_fn_def case_prod_beta)
  with ne len show ?thesis by (simp add: np_mean_def Let_def)
qed

theorem epoch_loss_aggregation_witness:
  "(let ops = \<lparr>forward_gen = (\<lambda>m x. x), forward_disc = (\<lambda>m x y. y),
               backward_d = (\<lambda>sc m a b c d e. Map.empty),
               backward_g = (\<lambda>sc g d a b l. (Map.empty, Map.empty)),
               scaler_step = (\<lambda>sc opt m. (sc, opt, state_dict m, grads m)),
               scaler_update = (\<lambda>sc. sc), sigmoid_mean = (\<lambda>t. 0),
               denormalize = (\<lambda>t. t), get_img_mask = (\<lambda>t. t), permute = (\<lambda>p t. t),
               make_grid = (\<lambda>ts. \<lparr>shape = [length ts], data = concat (map data ts), dtype = Float32\<rparr>)\<rparr>;
        cfg = \<lparr>NUM_EPOCHS = 1, SAVE_MODEL = True, LOG_WANDB = False,
               SMOOTH_POSITIVE_LABELS = False, SMOOTH_NEGATIVE_LABELS = False, L1_LAMBDA = 100,
               BATCH_SIZE = 1, CHECKPOINT_GEN = ''gen.pth.tar'', CHECKPOINT_DISC = ''disc.pth.tar''\<rparr>;
        net0 = \<lparr>state_dict = Map.empty, grads = Map.empty, training = False\<rparr>;
        opt0 = \<lparr>opt_state = Map.empty, param_groups = []\<rparr>;
        sc0 = \<lparr>scale = 1, growth_tracker = 0, found_inf = False\<rparr>;
        st = \<lparr>disc = net0, gen = net0, opt_disc = opt0, opt_gen = opt0, g_scaler = sc0,
              d_scaler = sc0, torch_rng = sconst (1/2), calls = []\<rparr>;
        loss = (\<lambda>a b. sum_list (data a));
        loader = [(\<lparr>shape = [1], data = [2], dtype = Float32\<rparr>, \<lparr>shape = [1], data = [4], dtype = Float32\<rparr>),
                  (\<lparr>shape = [1], data = [6], dtype = Float32\<rparr>, \<lparr>shape = [1], data = [8], dtype = Float32\<rparr>),
                  (\<lparr>shape = [1], data = [10], dtype = Float32\<rparr>, \<lparr>shape = [1], data = [12], dtype = Float32\<rparr>)]
    in loader \<noteq> []
     \<and> snd (train_fn_loop ops cfg loss loss loader st) =
         \<lparr>disc_losses = [3, 7, 11], gen_l1_losses = [400, 800, 1200], gen_adv_losses = [4, 8, 12]\<rparr>
     \<and> fst (train_fn ops cfg loss loss loader st) = (Float 8, Float 800, Float 7))"
proof -
  let ?ops = "\<lparr>forward_gen = (\<lambda>m x. x), forward_disc = (\<lambda>m x y. y),
               backward_d = (\<lambda>sc m a b c d e. Map.empty),
               backward_g = (\<lambda>sc g d a b l. (Map.empty, Map.empty)),
               scaler_step = (\<lambda>sc opt m. (sc, opt, state_dict m, grads m)),
               scaler_update = (\<lambda>sc. sc), sigmoid_mean = (\<lambda>t. 0),
               denormalize = (\<lambda>t. t), get_img_mask = (\<lambda>t. t), permute = (\<lambda>p t. t),
               make_grid = (\<lambda>ts. \<lparr>shape = [length ts], data = concat (map data ts), dtype = Float32\<rparr>)\<rparr>"
  let ?cfg = "\<lparr>NUM_EPOCHS = 1, SAVE_MODEL = True, LOG_WANDB = False,
               SMOOTH_POSITIVE_LABELS = False, SMOOTH_NEGATIVE_LABELS = False, L1_LAMBDA = 100,
               BATCH_SIZE = 1, CHECKPOINT_GEN = ''gen.pth.tar'', CHECKPOINT_DISC = ''disc.pth.tar''\<rparr>"
  let ?net0 = "\<lparr>state_dict = Map.empty, grads = Map.empty, training = False\<rparr>"
  let ?opt0 = "\<lparr>opt_state = Map.empty, param_groups = []\<rparr>"
  let ?sc0 = "\<lparr>scale = 1, growth_tracker = 0, found_inf = False\<rparr>"
  let ?st = "\<lparr>disc = ?net0, gen = ?net0, opt_disc = ?opt0, opt_gen = ?opt0, g_scaler = ?sc0,
              d_scaler = ?sc0, torch_rng = sconst (1/2), calls = []\<rparr>"
  let ?loss = "\<lambda>(a::tensor) (b::tensor). sum_list (data a)"
  let ?loader = "[(\<lparr>shape = [1], data = [2], dtype = Float32\<rparr>, \<lparr>shape = [1], data = [4], dtype = Float32\<rparr>),
                  (\<lparr>shape = [1], data = [6], dtype = Float32\<rparr>, \<lparr>shape = [1], data = [8], dtype = Float32\<rparr>),
                  (\<lparr>shape = [1], data = [10], dtype = Float32\<rparr>, \<lparr>shape = [1], data = [12], dtype = Float32\<rparr>)]"
  have ne: "?loader \<noteq> []" by simp
  have run: "snd (train_fn_loop ?ops ?cfg ?loss ?loss ?loader ?st) =
         \<lparr>disc_losses = [3, 7, 11], gen_l1_losses = [400, 800, 1200], gen_adv_losses = [4, 8, 12]\<rparr>"
    by (simp add: train_fn_loop_def train_step_def train_discriminator_def train_generator_def
        call_gen_def call_disc_def smooth_if_def zero_grad_disc_def backward_d_loss_def
        d_scaler_step_def d_scaler_update_def zero_grad_gen_def backward_g_loss_def
        g_scaler_step_def g_scaler_update_def log_call_def ones_like_def zeros_like_def
        full_def Let_def)
  from epoch_loss_aggregation [OF ne, of ?ops ?cfg ?loss ?loss ?st] ne run
  show ?thesis by (simp add: Let_def)
qed

section \<open>The empty iterator\<close>

text \<open>
  C9. On an iterator that yields no batch, \<open>train_fn\<close> returns NaN for each of the three
  means, whatever the library operations are; both optimizers, both gradient scalers and
  the random generator are as they were, the two networks differ from before only in
  their mode flag, and the only calls made are the two that set the training mode.
\<close>

theorem empty_loader_returns_nan:
  "fst (train_fn ops cfg l1_loss bce [] st) = (NaN, NaN, NaN)
 \<and> opt_disc (snd (train_fn ops cfg l1_loss bce [] st)) = opt_disc st
 \<and> opt_gen (snd (train_fn ops cfg l1_loss bce [] st)) = opt_gen st
 \<and> d_scaler (snd (train_fn ops cfg l1_loss bce [] st)) = d_scaler st
 \<and> g_scaler (snd (train_fn ops cfg l1_loss bce [] st)) = g_scaler st
 \<and> calls (snd (train_fn ops cfg l1_loss bce [] st)) = calls st @ [SetTrain Gen, SetTrain Disc]
 \<and> gen (snd (train_fn ops cfg l1_loss bce [] st)) = (gen st)\<lparr>training := True\<rparr>
 \<and> disc (snd (train_fn ops cfg l1_loss bce [] st)) = (disc st)\<lparr>training := True\<rparr>
 \<and> torch_rng (snd (train_fn ops cfg l1_loss bce [] st)) = torch_rng st"
  by (simp add: train_fn_def train_fn_loop_def np_mean_def log_call_def)

theorem empty_loader_returns_nan_witness:
  "(let ops = \<lparr>forward_gen = (\<lambda>m x. x), forward_disc = (\<lambda>m x y. y),
               backward_d = (\<lambda>sc m a b c d e. Map.empty),
               backward_g = (\<lambda>sc g d a b l. (Map.empty, Map.empty)),
               scaler_step = (\<lambda>sc opt m. (sc, opt, state_dict m, grads m)),
               scaler_update = (\<lambda>sc. sc), sigmoid_mean = (\<lambda>t. 0),
               denormalize = (\<lambda>t. t), get_img_mask = (\<lambda>t. t), permute = (\<lambda>p t. t),
               make_grid = (\<lambda>ts. \<lparr>shape = [length ts], data = concat (map data ts), dtype = Float32\<rparr>)\<rparr>;
        cfg = \<lparr>NUM_EPOCHS = 1, SAVE_MODEL = True, LOG_WANDB = False,
               SMOOTH_POSITIVE_LABELS = True, SMOOTH_NEGATIVE_LABELS = True, L1_LAMBDA = 100,
               BATCH_SIZE = 1, CHECKPOINT_GEN = ''gen.pth.tar'', CHECKPOINT_DISC = ''disc.pth.tar''\<rparr>;
        net0 = \<lparr>state_dict = Map.empty, grads = Map.empty, training = False\<rparr>;
        opt0 = \<lparr>opt_state = Map.empty, param_groups = []\<rparr>;
        sc0 = \<lparr>scale = 65536, growth_tracker = 0, found_inf = False\<rparr>;
        st = \<lparr>disc = net0, gen = net0, opt_disc = opt0, opt_gen = opt0, g_scaler = sc0,
              d_scaler = sc0, torch_rng = sconst (1/2), calls = []\<rparr>;
        loss = (\<lambda>a b. sum_list (data a))
    in fst (train_fn ops cfg loss loss [] st) = (NaN, NaN, NaN)
     \<and> opt_disc (snd (train_fn ops cfg loss loss [] st)) = opt0
     \<and> opt_gen (snd (train_fn ops cfg loss loss [] st)) = opt0
     \<and> d_scaler (snd (train_fn ops cfg loss loss [] st)) = sc0
     \<and> g_scaler (snd (train_fn ops cfg loss loss [] st)) = sc0
     \<and> calls (snd (train_fn ops cfg loss loss [] st)) = [SetTrain Gen, SetTrain Disc])"
  unfolding Let_def
  using empty_loader_returns_nan [of
     "\<lparr>forward_gen = (\<lambda>m x. x), forward_disc = (\<lambda>m x y. y),
               backward_d = (\<lambda>sc m a b c d e. Map.empty),
               backward_g = (\<lambda>sc g d a b l. (Map.empty, Map.empty)),
               scaler_step = (\<lambda>sc opt m. (sc, opt, state_dict m, grads m)),
               scaler_update = (\<lambda>sc. sc), sigmoid_mean = (\<lambda>t. 0),
               denormalize = (\<lambda>t. t), get_img_mask = (\<lambda>t. t), permute = (\<lambda>p t. t),
               make_grid = (\<lambda>ts. \<lparr>shape = [length ts], data = concat (map data ts), dtype = Float32\<rparr>)\<rparr>"
     "\<lparr>NUM_EPOCHS = 1, SAVE_MODEL = True, LOG_WANDB = False,
               SMOOTH_POSITIVE_LABELS = True, SMOOTH_NEGATIVE_LABELS = True, L1_LAMBDA = 100,
               BATCH_SIZE = 1, CHECKPOINT_GEN = ''gen.pth.tar'', CHECKPOINT_DISC = ''disc.pth.tar''\<rparr>"
     "\<lambda>a b. sum_list (data a)" "\<lambda>a b. sum_list (data a)"
     "\<lparr>disc = \<lparr>state_dict = Map.empty, grads = Map.empty, training = False\<rparr>,
       gen = \<lparr>state_dict = Map.empty, grads = Map.empty, training = False\<rparr>,
       opt_disc = \<lparr>opt_state = Map.empty, param_groups = []\<rparr>,
       opt_gen = \<lparr>opt_state = Map.empty, param_groups = []\<rparr>,
       g_scaler = \<lparr>scale = 65536, growth_tracker = 0, found_inf = False\<rparr>,
       d_scaler = \<lparr>scale = 65536, growth_tracker = 0, found_inf = False\<rparr>,
       torch_rng = sconst (1/2), calls = []\<rparr>"]
  by simp

section \<open>Training mode at the start of an epoch pass\<close>

lemma train_fn_loop_modes_irrelevant:
  "train_fn_loop ops cfg l1_loss bce loader
     (st\<lparr>gen := (gen st)\<lparr>training := b1\<rparr>, disc := (disc st)\<lparr>training := b2\<rparr>\<rparr>) =
   train_fn_loop ops cfg l1_loss bce loader st"
  by (simp add: train_fn_loop_def log_call_def)

text \<open>
  C10. \<open>train_fn\<close> sets the generator and the discriminator to training mode before the
  loop: the log of an epoch pass starts with the two mode-setting calls, no forward pass
  of either network that follows is made outside training mode, both networks are in
  training mode when \<open>train_fn\<close> returns, and the result does not depend on the mode
  either network was in when \<open>train_fn\<close> was called.
\<close>

theorem train_fn_sets_training_mode:
  "(\<exists>ev. calls (snd (train_fn ops cfg l1_loss bce loader st)) =
           calls st @ [SetTrain Gen, SetTrain Disc] @ ev
        \<and> Forward Gen False \<notin> set ev \<and> Forward Disc False \<notin> set ev)
 \<and> training (gen (snd (train_fn ops cfg l1_loss bce loader st)))
 \<and> training (disc (snd (train_fn ops cfg l1_loss bce loader st)))
 \<and> train_fn ops cfg l1_loss bce loader
      (st\<lparr>gen := (gen st)\<lparr>training := b1\<rparr>, disc := (disc st)\<lparr>training := b2\<rparr>\<rparr>) =
    train_fn ops cfg l1_loss bce loader st"
proof -
  let ?h0 = "\<lparr>disc_losses = [], gen_l1_losses = [], gen_adv_losses = []\<rparr>"
  let ?st0 = "st\<lparr>gen := (gen st)\<lparr>training := True\<rparr>, disc := (disc st)\<lparr>training := True\<rparr>,
                 calls := calls st @ [SetTrain Gen, SetTrain Disc]\<rparr>"
  have loop: "train_fn_loop ops cfg l1_loss bce loader st =
               train_batches ops cfg l1_loss bce 0 loader (?st0, ?h0)"
    by (simp add: train_fn_loop_def log_call_def)
  have snd_fn: "snd (train_fn ops cfg l1_loss bce loader st) =
                 fst (train_batches ops cfg l1_loss bce 0 loader (?st0, ?h0))"
    by (simp add: train_fn_def case_prod_beta loop)
  have m: "training (gen (fst (?st0, ?h0)))" "training (disc (fst (?st0, ?h0)))"
    by simp_all
  from train_batches_calls [OF m, of ops cfg l1_loss bce 0 loader]
  obtain ev where ev:
    "calls (fst (train_batches ops cfg l1_loss bce 0 loader (?st0, ?h0))) = calls ?st0 @ ev"
    "Forward Gen False \<notin> set ev" "Forward Disc False \<notin> set ev"
    by auto
  from ev have "\<exists>ev. calls (snd (train_fn ops cfg l1_loss bce loader st)) =
           calls st @ [SetTrain Gen, SetTrain Disc] @ ev
        \<and> Forward Gen False \<notin> set ev \<and> Forward Disc False \<notin> set ev"
    unfolding snd_fn by auto
  moreover from train_batches_modes [of ops cfg l1_loss bce 0 loader "(?st0, ?h0)"]
  have "training (gen (snd (train_fn ops cfg l1_loss bce loader st)))"
    "training (disc (snd (train_fn ops cfg l1_loss bce loader st)))"
    unfolding snd_fn by simp_all
  moreover have "train_fn ops cfg l1_loss bce loader
      (st\<lparr>gen := (gen st)\<lparr>training := b1\<rparr>, disc := (disc st)\<lparr>training := b2\<rparr>\<rparr>) =
    train_fn ops cfg l1_loss bce loader st"
    by (simp add: train_fn_def train_fn_loop_modes_irrelevant)
  ultimately show ?thesis by blast
qed

theorem train_fn_sets_training_mode_witness:
  "(let ops = \<lparr>forward_gen = (\<lambda>m x. x), forward_disc = (\<lambda>m x y. y),
               backward_d = (\<lambda>sc m a b c d e. Map.empty),
               backward_g = (\<lambda>sc g d a b l. (Map.empty, Map.empty)),
               scaler_step = (\<lambda>sc opt m. (sc, opt, state_dict m, grads m)),
               scaler_update = (\<lambda>sc. sc), sigmoid_mean = (\<lambda>t. 0),
               denormalize = (\<lambda>t. t), get_img_mask = (\<lambda>t. t), permute = (\<lambda>p t. t),
               make_grid = (\<lambda>ts. \<lparr>shape = [length ts], data = concat (map data ts), dtype = Float32\<rparr>)\<rparr>;
        cfg = \<lparr>NUM_EPOCHS = 1, SAVE_MODEL = True, LOG_WANDB = False,
               SMOOTH_POSITIVE_LABELS = False, SMOOTH_NEGATIVE_LABELS = False, L1_LAMBDA = 100,
               BATCH_SIZE = 1, CHECKPOINT_GEN = ''gen.pth.tar'', CHECKPOINT_DISC = ''disc.pth.tar''\<rparr>;
        net0 = \<lparr>state_dict = Map.empty, grads = Map.empty, training = False\<rparr>;
        opt0 = \<lparr>opt_state = Map.empty, param_groups = []\<rparr>;
        sc0 = \<lparr>scale = 65536, growth_tracker = 0, found_inf = False\<rparr>;
        st = \<lparr>disc = net0, gen = net0, opt_disc = opt0, opt_gen = opt0, g_scaler = sc0,
              d_scaler = sc0, torch_rng = sconst (1/2), calls = []\<rparr>;
        loss = (\<lambda>a b. sum_list (data a));
        loader = [(\<lparr>shape = [1], data = [2], dtype = Float32\<rparr>, \<lparr>shape = [1], data = [4], dtype = Float32\<rparr>)]
    in calls (snd (train_fn ops cfg loss loss loader st)) =
         [SetTrain Gen, SetTrain Disc, Forward Gen True, Forward Disc True, Forward Disc True,
          ZeroGrad Disc, Backward Disc, ScalerStep Disc, ScalerUpdate Disc, Forward Disc True,
          ZeroGrad Gen, Backward Gen, ScalerStep Gen, ScalerUpdate Gen]
     \<and> training (gen (snd (train_fn ops cfg loss loss loader st)))
     \<and> training (disc (snd (train_fn ops cfg loss loss loader st))))"
proof -
  let ?ops = "\<lparr>forward_gen = (\<lambda>m x. x), forward_disc = (\<lambda>m x y. y),
               backward_d = (\<lambda>sc m a b c d e. Map.empty),
               backward_g = (\<lambda>sc g d a b l. (Map.empty, Map.empty)),
               scaler_step = (\<lambda>sc opt m. (sc, opt, state_dict m, grads m)),
               scaler_update = (\<lambda>sc. sc), sigmoid_mean = (\<lambda>t. 0),
               denormalize = (\<lambda>t. t), get_img_mask = (\<lambda>t. t), permute = (\<lambda>p t. t),
               make_grid = (\<lambda>ts. \<lparr>shape = [length ts], data = concat (map data ts), dtype = Float32\<rparr>)\<rparr>"
  let ?cfg = "\<lparr>NUM_EPOCHS = 1, SAVE_MODEL = True, LOG_WANDB = False,
               SMOOTH_POSITIVE_LABELS = False, SMOOTH_NEGATIVE_LABELS = False, L1_LAMBDA = 100,
               BATCH_SIZE = 1, CHECKPOINT_GEN = ''gen.pth.tar'', CHECKPOINT_DISC = ''disc.pth.tar''\<rparr>"
  let ?net0 = "\<lparr>state_dict = Map.empty, grads = Map.empty, training = False\<rparr>"
  let ?opt0 = "\<lparr>opt_state = Map.empty, param_groups = []\<rparr>"
  let ?sc0 = "\<lparr>scale = 65536, growth_tracker = 0, found_inf = False\<rparr>"
  let ?st = "\<lparr>disc = ?net0, gen = ?net0, opt_disc = ?opt0, opt_gen = ?opt0, g_scaler = ?sc0,
              d_scaler = ?sc0, torch_rng = sconst (1/2), calls = []\<rparr>"
  let ?loss = "\<lambda>(a::tensor) (b::tensor). sum_list (data a)"
  let ?loader = "[(\<lparr>shape = [1], data = [2], dtype = Float32\<rparr>, \<lparr>shape = [1], data = [4], dtype = Float32\<rparr>)]"
  have run: "calls (snd (train_fn ?ops ?cfg ?loss ?loss ?loader ?st)) =
         [SetTrain Gen, SetTrain Disc, Forward Gen True, Forward Disc True, Forward Disc True,
          ZeroGrad Disc, Backward Disc, ScalerStep Disc, ScalerUpdate Disc, Forward Disc True,
          ZeroGrad Gen, Backward Gen, ScalerStep Gen, ScalerUpdate Gen]"
    by (simp add: train_fn_def train_fn_loop_def train_step_def train_discriminator_def
        train_generator_def call_gen_def call_disc_def smooth_if_def zero_grad_disc_def
        backward_d_loss_def d_scaler_step_def d_scaler_update_def zero_grad_gen_def
        backward_g_loss_def g_scaler_step_def g_scaler_update_def log_call_def ones_like_def
        zeros_like_def full_def Let_def)
  from train_fn_sets_training_mode [of ?ops ?cfg ?loss ?loss ?loader ?st] run
  show ?thesis unfolding Let_def by blast
qed

section \<open>Mode restoration after the inference-only routines\<close>

text \<open>
  C8. Whenever \<open>save_some_examples\<close> or \<open>wandb_log_generated_images\<close> returns normally,
  the generator it hands back is in training mode and is otherwise the generator it was
  given, although the forward pass inside ran in evaluation mode: the image that
  \<open>save_some_examples\<close> has written is the output of the generator with its mode flag
  off.
\<close>

theorem generator_mode_restored:
  "(\<forall>gen' d'. save_some_examples ops generator val_loader epoch folder d = Inr (gen', d')
       \<longrightarrow> training gen' \<and> gen' = generator\<lparr>training := True\<rparr>
         \<and> image_files d' (folder @ ''/y_gen_'' @ str_int epoch @ ''.png'') =
               Some (denormalize ops
                 (forward_gen ops (generator\<lparr>training := False\<rparr>) (snd (hd val_loader)))))
 \<and> (\<forall>gen' wb'. wandb_log_generated_images ops generator loader batch_to_log wb = Inr (gen', wb')
       \<longrightarrow> training gen' \<and> gen' = generator\<lparr>training := True\<rparr>)"
  by (auto simp: save_some_examples_def wandb_log_generated_images_def save_image_def Let_def
      split: list.splits sum.splits prod.splits)

theorem generator_mode_restored_witness:
  "(let ops = \<lparr>forward_gen = (\<lambda>m x. x), forward_disc = (\<lambda>m x y. y),
               backward_d = (\<lambda>sc m a b c d e. Map.empty),
               backward_g = (\<lambda>sc g d a b l. (Map.empty, Map.empty)),
               scaler_step = (\<lambda>sc opt m. (sc, opt, state_dict m, grads m)),
               scaler_update = (\<lambda>sc. sc), sigmoid_mean = (\<lambda>t. 0),
               denormalize = (\<lambda>t. t), get_img_mask = (\<lambda>t. t), permute = (\<lambda>p t. t),
               make_grid = (\<lambda>ts. \<lparr>shape = [length ts], data = concat (map data ts), dtype = Float32\<rparr>)\<rparr>;
        generator = \<lparr>state_dict = Map.empty, grads = Map.empty, training = True\<rparr>;
        loader = [(\<lparr>shape = [1, 1], data = [5], dtype = Float32\<rparr>, \<lparr>shape = [1, 1], data = [6], dtype = Float32\<rparr>)];
        d = \<lparr>dirs = {}, image_files = Map.empty\<rparr>
    in loader \<noteq> []
     \<and> (\<exists>d'. save_some_examples ops generator loader 0 ''evaluation'' d = Inr (generator\<lparr>training := True\<rparr>, d'))
     \<and> (\<exists>wb'. wandb_log_generated_images ops generator loader 5 [] = Inr (generator\<lparr>training := True\<rparr>, wb')))"
proof -
  let ?ops = "\<lparr>forward_gen = (\<lambda>m x. x), forward_disc = (\<lambda>m x y. y),
               backward_d = (\<lambda>sc m a b c d e. Map.empty),
               backward_g = (\<lambda>sc g d a b l. (Map.empty, Map.empty)),
               scaler_step = (\<lambda>sc opt m. (sc, opt, state_dict m, grads m)),
               scaler_update = (\<lambda>sc. sc), sigmoid_mean = (\<lambda>t. 0),
               denormalize = (\<lambda>t. t), get_img_mask = (\<lambda>t. t), permute = (\<lambda>p t. t),
               make_grid = (\<lambda>ts. \<lparr>shape = [length ts], data = concat (map data ts), dtype = Float32\<rparr>)\<rparr>"
  let ?g = "\<lparr>state_dict = Map.empty, grads = Map.empty, training = True\<rparr>"
  let ?loader = "[(\<lparr>shape = [1, 1], data = [5], dtype = Float32\<rparr>, \<lparr>shape = [1, 1], data = [6], dtype = Float32\<rparr>)]"
  let ?d = "\<lparr>dirs = {}, image_files = Map.empty\<rparr>"
  have ne: "?loader \<noteq> []" by simp
  have s: "\<exists>gen' d'. save_some_examples ?ops ?g ?loader 0 ''evaluation'' ?d = Inr (gen', d')"
    by (simp add: save_some_examples_def Let_def)
  have w: "\<exists>gen' wb'. wandb_log_generated_images ?ops ?g ?loader 5 [] = Inr (gen', wb')"
    by (simp add: wandb_log_generated_images_def t_unbind_def t_index_def)
  from generator_mode_restored [of ?ops ?g ?loader 0 "''evaluation''" ?d ?loader 5 "[]"] ne s w
  show ?thesis unfolding Let_def by blast
qed


end
